theory Spec2Isabelle
  imports Complex_Main
begin

section \<open>Python values shared by all models\<close>

text \<open>
  Every exception the modelled code can raise is a value. \<open>ValueError\<close> carries the
  message where the source gives a literal one; a message the source builds with an
  f-string is kept up to its first interpolated value. \<open>Exception\<close> stands for
  whatever a call into another library raised.
\<close>

datatype error =
    ValueError string
  | TypeError
  | IndexError
  | AttributeError
  | KeyError
  | AssertionError
  | NotImplementedError
  | ZeroDivisionError
  | RuntimeError
  | Exception

text \<open>Sequencing of fallible steps: the first exception ends the computation.\<close>

definition bind :: "error + 'a \<Rightarrow> ('a \<Rightarrow> error + 'b) \<Rightarrow> error + 'b" where
  "bind r f = (case r of Inl e \<Rightarrow> Inl e | Inr v \<Rightarrow> f v)"

text \<open>\<open>xs[i]\<close> for a non-negative index \<open>i\<close> of a Python list.\<close>

definition py_index :: "'a list \<Rightarrow> nat \<Rightarrow> error + 'a" where
  "py_index xs i = (if i < length xs then Inr (xs ! i) else Inl IndexError)"

section \<open>Gemma prompt format (nemo/collections/common/prompts/gemma.py)\<close>

definition GEMMA_BOS :: string where
  "GEMMA_BOS = ''<start_of_turn>''"

definition GEMMA_END_OF_TURN :: string where
  "GEMMA_END_OF_TURN = ''<end_of_turn>''"

text \<open>The line feed of the Python literals \<^verbatim>\<open>"\n"\<close>.\<close>

definition NL :: string where
  "NL = [CHR 0x0A]"

definition GEMMA_NL :: string where
  "GEMMA_NL = NL @ NL"

datatype Modality = Text

text \<open>
  One entry of \<open>GemmaPromptFormatter.TEMPLATE\<close>: the template string and the dict of
  its slots (in insertion order).
\<close>

record template_entry =
  template :: string
  slot_types :: "(string \<times> Modality) list"

definition NAME :: string where
  "NAME = ''gemma''"

definition OUTPUT_ROLE :: string where
  "OUTPUT_ROLE = ''assistant''"

definition INSERT_BOS :: bool where
  "INSERT_BOS = True"

definition INSERT_EOS :: bool where
  "INSERT_EOS = True"

definition TEMPLATE_items :: "(string \<times> template_entry) list" where
  "TEMPLATE_items =
     [(''user'',
        \<lparr>template = GEMMA_BOS @ ''user'' @ NL @ ''|message|'' @ GEMMA_END_OF_TURN @ NL
                     @ GEMMA_BOS @ ''model'' @ NL,
         slot_types = [(''message'', Text)]\<rparr>),
      (OUTPUT_ROLE,
        \<lparr>template = ''|message|'' @ GEMMA_END_OF_TURN @ NL,
         slot_types = [(''message'', Text)]\<rparr>)]"

definition TEMPLATE :: "string \<rightharpoonup> template_entry" where
  "TEMPLATE = map_of TEMPLATE_items"

subsection \<open>Cuts\<close>

text \<open>
  What \<open>gemma1\<close> reads of a lhotse cut: its \<open>custom\<close> dict (\<open>has_custom\<close> tests
  membership, attribute access \<open>cut.name\<close> reads the dict and raises AttributeError for
  a missing name) and its supervisions, each with an optional text. A \<open>MixedCut\<close> is
  replaced by the cut its \<open>first_non_padding_cut\<close> property gives, which is the
  argument of the constructor here.
\<close>

record supervision =
  text_of :: "string option"

record cut_data =
  custom :: "string \<rightharpoonup> string"
  supervisions :: "supervision list"

datatype cut = MonoCut cut_data | MixedCut cut_data

definition has_custom :: "cut_data \<Rightarrow> string \<Rightarrow> bool" where
  "has_custom c name = (custom c name \<noteq> None)"

definition getattr :: "cut_data \<Rightarrow> string \<Rightarrow> error + string" where
  "getattr c name = (case custom c name of None \<Rightarrow> Inl AttributeError | Some v \<Rightarrow> Inr v)"

text \<open>A turn of a dialog: the dict \<open>{"role": ..., "slots": {...}}\<close>.\<close>

record turn =
  role :: string
  slots :: "(string \<times> string) list"

text \<open>Lines 60-61: the cut whose fields are read.\<close>

fun effective_cut :: "cut \<Rightarrow> cut_data" where
  "effective_cut (MonoCut c) = c"
| "effective_cut (MixedCut c) = c"

text \<open>Lines 62-67: the context, by the first custom field present.\<close>

definition select_context :: "cut_data \<Rightarrow> error + string" where
  "select_context c =
     (if has_custom c ''context'' then getattr c ''context''
      else if has_custom c ''question'' then getattr c ''question''
      else getattr c ''default_context'')"

text \<open>Lines 69-73: the first turn of the dialog.\<close>

definition first_turn :: "cut_data \<Rightarrow> error + turn" where
  "first_turn c =
     bind (select_context c) (\<lambda>context.
       if has_custom c ''system_prompt''
       then bind (getattr c ''system_prompt'') (\<lambda>sp.
              Inr \<lparr>role = ''system_and_user'',
                   slots = [(''system'', sp), (''message'', context)]\<rparr>)
       else Inr \<lparr>role = ''user'', slots = [(''message'', context)]\<rparr>)"

text \<open>
  Lines 69-75: the list \<open>turns\<close> that is passed to \<open>prompt.encode_dialog\<close>. The
  answer is \<open>cut.supervisions[0].text\<close>, which raises IndexError on a cut without
  supervisions.
\<close>

definition gemma1_turns :: "cut \<Rightarrow> error + turn list" where
  "gemma1_turns ct =
     (let c = effective_cut ct in
      bind (first_turn c) (\<lambda>t.
      bind (py_index (supervisions c) 0) (\<lambda>s.
        case text_of s of
          None \<Rightarrow> Inr [t]
        | Some answer \<Rightarrow> Inr [t, \<lparr>role = ''assistant'', slots = [(''message'', answer)]\<rparr>])))"

text \<open>
  Lines 58-80: the loop over the cuts. \<open>encode_dialog\<close> belongs to the base class
  \<open>PromptFormatter\<close> and is a parameter; it returns the items of a dict, and each
  value is appended to the list the \<open>defaultdict(list)\<close> holds under its key.
\<close>

fun append_items :: "(string \<times> 'v) list \<Rightarrow> (string \<Rightarrow> 'v list) \<Rightarrow> (string \<Rightarrow> 'v list)" where
  "append_items [] ans = ans"
| "append_items ((k, v) # kvs) ans = append_items kvs (ans(k := ans k @ [v]))"

fun gemma1_loop ::
  "(turn list \<Rightarrow> error + (string \<times> 'v) list) \<Rightarrow> cut list \<Rightarrow> (string \<Rightarrow> 'v list)
     \<Rightarrow> error + (string \<Rightarrow> 'v list)" where
  "gemma1_loop encode_dialog [] ans = Inr ans"
| "gemma1_loop encode_dialog (ct # cuts) ans =
     bind (gemma1_turns ct) (\<lambda>turns.
     bind (encode_dialog turns) (\<lambda>items.
       gemma1_loop encode_dialog cuts (append_items items ans)))"

definition gemma1 ::
  "(turn list \<Rightarrow> error + (string \<times> 'v) list) \<Rightarrow> cut list \<Rightarrow> error + (string \<Rightarrow> 'v list)" where
  "gemma1 encode_dialog cuts = gemma1_loop encode_dialog cuts (\<lambda>k. [])"

subsection \<open>Rendering a turn\<close>

text \<open>
  Python's \<open>s.replace(old, new)\<close>: every occurrence of \<open>old\<close>, left to right and
  without overlap, is replaced by \<open>new\<close>; the replacement is not scanned again. With
  an empty \<open>old\<close>, \<open>new\<close> is inserted before every character and at the end.
\<close>

function str_replace :: "string \<Rightarrow> string \<Rightarrow> string \<Rightarrow> string" where
  "str_replace old new [] = []"
| "str_replace old new (c # cs) =
     (if old \<noteq> [] \<and> take (length old) (c # cs) = old
      then new @ str_replace old new (drop (length old) (c # cs))
      else c # str_replace old new cs)"
  by pat_completeness auto
termination
  by (relation "measure (\<lambda>(old, new, s). length s)") auto

definition py_replace :: "string \<Rightarrow> string \<Rightarrow> string \<Rightarrow> string" where
  "py_replace old new s =
     (if old = [] then new @ concat (map (\<lambda>c. c # new) s) else str_replace old new s)"

text \<open>
  Modelled from the spec: the rendering of one turn by the base class \<open>PromptFormatter\<close>
  (nemo/collections/common/prompts/formatter.py), which is not among the sources. The
  spec reads a role's template as the text of the turn with the value of each slot put
  in the place of the slot's name between two bars (\<open>|message|\<close>): a user turn is
  the text before the slot, the message, and the text after it. A role that
  \<open>TEMPLATE\<close> does not define, or a slot of the template without a value, gives no
  text.
\<close>

definition mangled :: "string \<Rightarrow> string" where
  "mangled slot = ''|'' @ slot @ ''|''"

fun fill_slots :: "string list \<Rightarrow> (string \<rightharpoonup> string) \<Rightarrow> string \<Rightarrow> string option" where
  "fill_slots [] values prompt = Some prompt"
| "fill_slots (slot # rest) values prompt =
     (case values slot of
        None \<Rightarrow> None
      | Some v \<Rightarrow> fill_slots rest values (py_replace (mangled slot) v prompt))"

definition render_turn :: "turn \<Rightarrow> string option" where
  "render_turn t =
     (case TEMPLATE (role t) of
        None \<Rightarrow> None
      | Some e \<Rightarrow> fill_slots (map fst (slot_types e)) (map_of (slots t)) (template e))"

subsection \<open>Example cuts\<close>

definition example_system_cut :: cut where
  "example_system_cut =
     MonoCut \<lparr>custom = map_of [(''system_prompt'', ''Be brief.''), (''context'', ''Transcribe.'')],
              supervisions = [\<lparr>text_of = Some ''hello''\<rparr>]\<rparr>"

definition example_question_cut :: cut where
  "example_question_cut =
     MixedCut \<lparr>custom = map_of [(''question'', ''What is said?''), (''default_context'', ''Listen.'')],
               supervisions = [\<lparr>text_of = Some ''nothing''\<rparr>, \<lparr>text_of = None\<rparr>]\<rparr>"

section \<open>Speech-to-text LLM drivers (nemo/collections/slm/api.py)\<close>

text \<open>
  The three drivers are straight-line code: a sequence of calls into other modules, one
  of them (the PEFT wrapper) under a condition on the config. A call either returns or
  raises, which ends the driver. The calls are named after the callee; a call stands for
  the evaluation of its arguments (the config lookups) as well.
\<close>

datatype call =
    Call_set_typecheck_enabled
  | Call_OmegaConf_to_container
  | Call_logging_info
  | Call_AutoTokenizer
  | Call_from_config_dict_llm_config
  | Call_ASRModuleConfig
  | Call_ModalityAdapterConfig
  | Call_SpeechToTextLLMConfig
  | Call_SpeechToTextLLM
  | Call_AudioToTextDataModule
  | Call_from_config_dict_optim
  | Call_from_config_dict_strategy
  | Call_get_object_list_plugins
  | Call_get_object_list_callbacks
  | Call_Trainer
  | Call_from_config_dict_peft
  | Call_SpeechToTextLLMPEFT
  | Call_from_config_dict_resume
  | Call_from_config_dict_logger
  | Call_llm_finetune
  | Call_setup
  | Call_trainer_validate
  | Call_pdb_set_trace
  | Call_trainer_predict

text \<open>
  Running a sequence of calls in a world \<open>returns\<close> that says which calls return: the
  calls made, in order (the raising one last), and whether all of them returned.
\<close>

fun run :: "(call \<Rightarrow> bool) \<Rightarrow> call list \<Rightarrow> call list \<times> bool" where
  "run returns [] = ([], True)"
| "run returns (c # cs) =
     (if returns c then (c # fst (run returns cs), snd (run returns cs)) else ([c], False))"

text \<open>
  Steps 1 to 6, which the three functions share word for word (lines 23-63, 79-119,
  141-181). \<open>peft\<close> is the truth value of \<open>cfg['model'].get('peft', None)\<close>.
\<close>

definition build_steps :: "bool \<Rightarrow> call list" where
  "build_steps peft =
     [Call_set_typecheck_enabled, Call_OmegaConf_to_container, Call_logging_info,
      Call_AutoTokenizer,
      Call_from_config_dict_llm_config, Call_ASRModuleConfig, Call_ModalityAdapterConfig,
      Call_SpeechToTextLLMConfig,
      Call_SpeechToTextLLM,
      Call_AudioToTextDataModule,
      Call_from_config_dict_optim,
      Call_from_config_dict_strategy, Call_get_object_list_plugins,
      Call_get_object_list_callbacks, Call_Trainer]
     @ (if peft then [Call_from_config_dict_peft, Call_SpeechToTextLLMPEFT] else [])
     @ [Call_from_config_dict_resume, Call_from_config_dict_logger]"

definition train_steps :: "bool \<Rightarrow> call list" where
  "train_steps peft = build_steps peft @ [Call_llm_finetune]"

definition validate_steps :: "bool \<Rightarrow> call list" where
  "validate_steps peft =
     build_steps peft @ [Call_setup, Call_trainer_validate, Call_pdb_set_trace]"

definition generate_steps :: "bool \<Rightarrow> call list" where
  "generate_steps peft = build_steps peft @ [Call_setup, Call_trainer_predict]"

text \<open>
  A driver gives the calls it made and either the log directory it returns
  (\<open>logger.log_dir\<close> or \<open>app_state.log_dir\<close>, the argument \<open>log_dir\<close>) or the
  exception.
\<close>

definition driver :: "call list \<Rightarrow> (call \<Rightarrow> bool) \<Rightarrow> string \<Rightarrow> call list \<times> (error + string)" where
  "driver steps returns log_dir =
     (fst (run returns steps), if snd (run returns steps) then Inr log_dir else Inl Exception)"

definition speetch_to_text_llm_train ::
  "(call \<Rightarrow> bool) \<Rightarrow> bool \<Rightarrow> string \<Rightarrow> call list \<times> (error + string)" where
  "speetch_to_text_llm_train returns peft log_dir = driver (train_steps peft) returns log_dir"

definition speetch_to_text_llm_validate ::
  "(call \<Rightarrow> bool) \<Rightarrow> bool \<Rightarrow> string \<Rightarrow> call list \<times> (error + string)" where
  "speetch_to_text_llm_validate returns peft log_dir =
     driver (validate_steps peft) returns log_dir"

definition speetch_to_text_llm_generate ::
  "(call \<Rightarrow> bool) \<Rightarrow> bool \<Rightarrow> string \<Rightarrow> call list \<times> (error + string)" where
  "speetch_to_text_llm_generate returns peft log_dir =
     driver (generate_steps peft) returns log_dir"

section \<open>GPT embedding model (nemo/collections/nlp/models/information_retrieval/megatron_gpt_embedding_model.py)\<close>

subsection \<open>Building the datasets\<close>

text \<open>
  A config value that the code tests with \<open>isinstance(..., ListConfig)\<close>: None, a
  \<open>ListConfig\<close> with its entries, or a value of another type.
\<close>

datatype 'a cfg_value = CfgNone | ListConfig "'a list" | CfgOther

text \<open>
  The fields of \<open>data_cfg\<close> that decide the result. The entries read with
  \<open>data_cfg.get(name, default)\<close> are optional. \<open>index_mapping_dir\<close>,
  \<open>memmap_workers\<close>, the tokenizer, the virtual tokens and the special tokens go to
  the dataset constructor as they are and are left out.
\<close>

record data_cfg =
  file_names :: "string cfg_value"
  concat_sampling_probabilities :: "real cfg_value"
  global_batch_size :: int
  max_seq_length :: int
  min_seq_length :: int
  add_bos :: "bool option"
  add_eos :: "bool option"
  seed :: "int option"
  truncation_method :: "string option"

text \<open>What \<open>_build_dataset\<close> reads of the model: \<open>self.trainer\<close> and \<open>self.cfg\<close>.\<close>

record embedding_model =
  max_steps :: "int option"
  position_embedding_type :: "string option"
  max_position_embeddings :: int

text \<open>
  A \<open>GPTEmbeddingDataset\<close> is the arguments it was constructed with, and a
  \<open>BlendableDataset\<close> likewise (\<open>datasets\<close>, \<open>weights\<close>, \<open>size\<close>). Reading the
  files is not modelled.
\<close>

record gpt_embedding_dataset =
  ds_file_path :: string
  ds_max_seq_length :: int
  ds_min_seq_length :: int
  ds_add_bos :: bool
  ds_add_eos :: bool
  ds_max_num_samples :: "int option"
  ds_seed :: int
  ds_truncation_method :: string

record blendable_dataset =
  bl_datasets :: "gpt_embedding_dataset list"
  bl_weights :: "real cfg_value"
  bl_size :: int

datatype built = BlendableDataset blendable_dataset | DatasetList "gpt_embedding_dataset list"

text \<open>
  The list \<open>data_prefix\<close> of lines 73-76: weight, file name, weight, file name, ...
\<close>

datatype prefix_item = Weight real | Prefix string

fun make_data_prefix :: "(real \<times> string) list \<Rightarrow> prefix_item list" where
  "make_data_prefix [] = []"
| "make_data_prefix ((weight, prefix) # rest) = Weight weight # Prefix prefix # make_data_prefix rest"

text \<open>
  \<open>get_datasets_weights_and_num_samples\<close> is imported from \<open>base_dataset_utils\<close>,
  which is not among the sources: it is a parameter, a function from the data prefix
  and the list of requested sample counts to an exception or the triple (prefixes,
  weights, per-dataset sample counts).
\<close>

type_synonym weights_and_num_samples =
  "prefix_item list \<Rightarrow> int list \<Rightarrow> error + (string list \<times> real list \<times> int list list)"

text \<open>\<open>x[0]\<close> for every \<open>x\<close> of a list of lists (line 84); an empty \<open>x\<close> raises.\<close>

fun firsts :: "'a list list \<Rightarrow> error + 'a list" where
  "firsts [] = Inr []"
| "firsts (x # xs) =
     (case x of
        [] \<Rightarrow> Inl IndexError
      | v # _ \<Rightarrow> bind (firsts xs) (\<lambda>vs. Inr (v # vs)))"

text \<open>Lines 89-96: the sequence length is capped for learned absolute positions.\<close>

definition cap_max_seq_length :: "embedding_model \<Rightarrow> data_cfg \<Rightarrow> data_cfg" where
  "cap_max_seq_length self d =
     (if (position_embedding_type self = None
            \<or> position_embedding_type self = Some ''learned_absolute'')
         \<and> max_seq_length d > max_position_embeddings self
      then d\<lparr>max_seq_length := max_position_embeddings self\<rparr>
      else d)"

text \<open>Lines 99-119: one dataset, with the defaults of the \<open>get\<close> calls.\<close>

definition make_dataset :: "data_cfg \<Rightarrow> string \<Rightarrow> int option \<Rightarrow> gpt_embedding_dataset" where
  "make_dataset d file_path num_samples0 =
     \<lparr>ds_file_path = file_path,
      ds_max_seq_length = max_seq_length d,
      ds_min_seq_length = min_seq_length d,
      ds_add_bos = (case add_bos d of None \<Rightarrow> False | Some b \<Rightarrow> b),
      ds_add_eos = (case add_eos d of None \<Rightarrow> True | Some b \<Rightarrow> b),
      ds_max_num_samples = num_samples0,
      ds_seed = (case seed d of None \<Rightarrow> 1234 | Some n \<Rightarrow> n),
      ds_truncation_method = (case truncation_method d of None \<Rightarrow> ''right'' | Some m \<Rightarrow> m)\<rparr>"

text \<open>
  Lines 98-120: the loop over \<open>zip(data_cfg.file_names, num_train_samples_per_dataset)\<close>,
  which reads \<open>num_samples[0]\<close>.
\<close>

fun make_datasets :: "data_cfg \<Rightarrow> (string \<times> int option list) list \<Rightarrow> error + gpt_embedding_dataset list" where
  "make_datasets d [] = Inr []"
| "make_datasets d ((file_path, num_samples) # rest) =
     (case num_samples of
        [] \<Rightarrow> Inl IndexError
      | n # _ \<Rightarrow> bind (make_datasets d rest) (\<lambda>ds. Inr (make_dataset d file_path n # ds)))"

text \<open>
  \<open>_build_dataset\<close> (lines 45-127). The result is the value returned together with
  \<open>data_cfg\<close> as the function leaves it. The messages of the second and the fourth
  ValueError end where the source interpolates a value; the third ValueError is raised
  with a tuple of two strings, of which the first is kept. Without \<open>is_train\<close> the
  variable \<open>num_train_samples_after_blend\<close> is never assigned and never read; it is 0
  here.
\<close>

definition build_dataset ::
  "weights_and_num_samples \<Rightarrow> embedding_model \<Rightarrow> data_cfg \<Rightarrow> bool \<Rightarrow> error + (built \<times> data_cfg)" where
  "build_dataset get_datasets_weights_and_num_samples self d is_train =
     (case file_names d of
        ListConfig fs \<Rightarrow>
          bind
            (if is_train then
               (case concat_sampling_probabilities d of
                  ListConfig ws \<Rightarrow>
                    if length ws \<noteq> length fs
                    then Inl (ValueError
                      ''concat_sampling_probabilities must be of the same size as file_names.'')
                    else
                      (let data_prefix = make_data_prefix (zip ws fs) in
                       case max_steps self of
                         None \<Rightarrow> Inl (ValueError
                           ''Trainer max_steps must be set to a positive integer. Found '')
                       | Some m \<Rightarrow>
                           if m \<le> 0
                           then Inl (ValueError
                             ''Trainer max_steps must be set to a positive integer. Found '')
                           else
                             bind (get_datasets_weights_and_num_samples data_prefix
                                     [m * global_batch_size d])
                               (\<lambda>(prefixes, weights, num_train_samples_per_dataset).
                                  bind (firsts num_train_samples_per_dataset) (\<lambda>xs.
                                    Inr (map (map Some) num_train_samples_per_dataset,
                                         sum_list xs))))
                | _ \<Rightarrow> Inl (ValueError
                    (''concat_sampling_probabilities must be a ListConfig with the same ''
                     @ ''number of files in file_names.Found: '')))
             else Inr (replicate (length fs) [None], 0))
            (\<lambda>(num_train_samples_per_dataset, num_train_samples_after_blend).
               let d' = cap_max_seq_length self d in
               bind (make_datasets d' (zip fs num_train_samples_per_dataset)) (\<lambda>datasets.
                 if is_train
                 then Inr (BlendableDataset
                             \<lparr>bl_datasets = datasets,
                              bl_weights = concat_sampling_probabilities d',
                              bl_size = num_train_samples_after_blend\<rparr>, d')
                 else Inr (DatasetList datasets, d')))
      | _ \<Rightarrow> Inl (ValueError
          (''SFT train/validation datasets must be provided as a list of individual ''
           @ ''JSONL files.'')))"

text \<open>Whether a result is a raised ValueError.\<close>

fun raises_ValueError :: "error + 'a \<Rightarrow> bool" where
  "raises_ValueError (Inl (ValueError m)) = True"
| "raises_ValueError r = False"

fun is_ListConfig :: "'a cfg_value \<Rightarrow> bool" where
  "is_ListConfig (ListConfig xs) = True"
| "is_ListConfig v = False"

text \<open>
  An example: two files with sampling probabilities 0.3 and 0.7, ten steps of batch
  size 4, and a helper that answers every request with 13 and 29 samples (the shares
  of 40 samples with a margin).
\<close>

definition example_data_cfg :: data_cfg where
  "example_data_cfg =
     \<lparr>file_names = ListConfig [''a.jsonl'', ''b.jsonl''],
      concat_sampling_probabilities = ListConfig [0.3, 0.7],
      global_batch_size = 4, max_seq_length = 4096, min_seq_length = 1,
      add_bos = None, add_eos = None, seed = None, truncation_method = None\<rparr>"

definition example_embedding_model :: embedding_model where
  "example_embedding_model =
     \<lparr>max_steps = Some 10, position_embedding_type = Some ''rope'',
      max_position_embeddings = 2048\<rparr>"

definition example_helper :: weights_and_num_samples where
  "example_helper data_prefix num_samples =
     Inr ([''a.jsonl'', ''b.jsonl''], [0.3, 0.7], [[13], [29]])"

subsection \<open>The contrastive loss\<close>

text \<open>
  The library the loss is computed with. \<open>cosine_similarity\<close> and \<open>torch_norm\<close> stand
  for \<open>torch.nn.functional.cosine_similarity(., ., dim=-1)\<close> and \<open>torch.norm(.,
  dim=-1)\<close> on one row (or one pair of rows), \<open>cross_entropy\<close> for
  \<open>torch.nn.functional.cross_entropy\<close> on the rows of logits and their target classes.
  \<open>multinomial n k\<close> is what \<open>torch.multinomial\<close> draws for \<open>n\<close> queries and \<open>k\<close> soft
  negatives. \<open>cp_peer_losses\<close> are the losses that the other ranks of the
  context-parallel group hold when \<open>torch.distributed.all_reduce\<close> runs, which sums over
  the group.
\<close>

record torch =
  cosine_similarity :: "real list \<Rightarrow> real list \<Rightarrow> real"
  torch_norm :: "real list \<Rightarrow> real"
  cross_entropy :: "real list list \<Rightarrow> nat list \<Rightarrow> real"
  multinomial :: "nat \<Rightarrow> nat \<Rightarrow> nat list list"
  cp_peer_losses :: "real list"

text \<open>
  What the loss reads of the model: \<open>self.temperature\<close>, \<open>self.num_soft_negatives\<close> and
  \<open>self.cfg.get('context_parallel_size', 1)\<close>.
\<close>

record loss_cfg =
  temperature :: real
  num_soft_negatives :: int
  context_parallel_size :: "int option"

text \<open>
  \<open>output_tensor[loss_mask, idx, :]\<close> for a tensor of shape \<open>[s, b, h]\<close> (a list of \<open>s\<close>
  lists of \<open>b\<close> rows), a tensor \<open>loss_mask\<close> of integers and \<open>idx = arange(b)\<close>. The two
  index tensors are broadcast against each other; a negative index counts from the end;
  an index out of range raises IndexError.
\<close>

definition shape1 :: "'a list list \<Rightarrow> nat" where
  "shape1 t = (case t of [] \<Rightarrow> 0 | plane # _ \<Rightarrow> length plane)"

definition broadcast_pairs :: "'a list \<Rightarrow> 'b list \<Rightarrow> error \<Rightarrow> error + ('a \<times> 'b) list" where
  "broadcast_pairs xs ys e =
     (if length xs = length ys then Inr (zip xs ys)
      else if length xs = 1 then Inr (map (\<lambda>y. (hd xs, y)) ys)
      else if length ys = 1 then Inr (map (\<lambda>x. (x, hd ys)) xs)
      else Inl e)"

definition index_row :: "real list list list \<Rightarrow> int \<times> nat \<Rightarrow> error + real list" where
  "index_row t p =
     (let s = int (length t);
          r = (if fst p < 0 then fst p + s else fst p)
      in if 0 \<le> r \<and> r < s \<and> snd p < shape1 t then Inr (t ! nat r ! snd p) else Inl IndexError)"

fun collect :: "('a \<Rightarrow> error + 'b) \<Rightarrow> 'a list \<Rightarrow> error + 'b list" where
  "collect f [] = Inr []"
| "collect f (x # xs) = bind (f x) (\<lambda>y. bind (collect f xs) (\<lambda>ys. Inr (y # ys)))"

definition eos_rows :: "real list list list \<Rightarrow> int list \<Rightarrow> error + real list list" where
  "eos_rows output_tensor loss_mask =
     bind (broadcast_pairs loss_mask [0 ..< shape1 output_tensor] IndexError)
       (collect (index_row output_tensor))"

text \<open>The slice \<open>xs[start::3]\<close> for \<open>start\<close> 0, 1 or 2.\<close>

definition slice3 :: "nat \<Rightarrow> 'a list \<Rightarrow> 'a list" where
  "slice3 start xs = map (\<lambda>k. xs ! (start + 3 * k)) [0 ..< (length xs + 2 - start) div 3]"

text \<open>
  A function of two rows applied along the first axis of two lists of rows, which are
  broadcast against each other; sizes that do not fit raise RuntimeError.
\<close>

definition rowwise ::
  "(real list \<Rightarrow> real list \<Rightarrow> real) \<Rightarrow> real list list \<Rightarrow> real list list \<Rightarrow> error + real list" where
  "rowwise f a b = bind (broadcast_pairs a b RuntimeError) (\<lambda>ps. Inr (map (\<lambda>(u, v). f u v) ps))"

text \<open>\<open>x / torch.norm(x, dim=-1, keepdim=True)\<close>, row by row.\<close>

definition normalize_row :: "torch \<Rightarrow> real list \<Rightarrow> real list" where
  "normalize_row T q = map (\<lambda>x. x / torch_norm T q) q"

text \<open>
  \<open>torch.cat\<close> along axis 1 of columns (each \<open>unsqueeze(1)\<close>) and, with soft negatives,
  of a matrix: all must have the same number of rows.
\<close>

definition cat2 :: "real list \<Rightarrow> real list \<Rightarrow> error + real list list" where
  "cat2 a b = (if length a = length b then Inr (map (\<lambda>(x, y). [x, y]) (zip a b))
               else Inl RuntimeError)"

definition cat3 :: "real list \<Rightarrow> real list \<Rightarrow> real list list \<Rightarrow> error + real list list" where
  "cat3 a b m =
     (if length a = length b \<and> length b = length m
      then Inr (map (\<lambda>(x, y, r). x # y # r) (zip a (zip b m)))
      else Inl RuntimeError)"

definition dot :: "real list \<Rightarrow> real list \<Rightarrow> real" where
  "dot u v = sum_list (map (\<lambda>(x, y). x * y) (zip u v))"

text \<open>
  Lines 235-248, the branch with soft negatives: \<open>all_cs\<close> is the matrix of the dot
  products of normalized queries and normalized positive documents, scaled;
  \<open>all_cs[soft_neg_samples][:, :, 0]\<close> reads column 0 of the sampled rows.
\<close>

definition soft_negative_cs ::
  "torch \<Rightarrow> loss_cfg \<Rightarrow> real \<Rightarrow> real list list \<Rightarrow> real list list \<Rightarrow> real list
     \<Rightarrow> error + real list list" where
  "soft_negative_cs T cfg inv_t query_hs pos_doc_hs neg_cs =
     (if \<not> num_soft_negatives cfg < int (length query_hs) then Inl AssertionError
      else
        (let soft_neg_samples = multinomial T (length query_hs) (nat (num_soft_negatives cfg));
             all_cs = map (\<lambda>q. map (\<lambda>p. dot q p * inv_t) pos_doc_hs) query_hs;
             pos_cs_diag = map (\<lambda>i. all_cs ! i ! i)
                             [0 ..< min (length query_hs) (length pos_doc_hs)]
         in bind (collect (collect (\<lambda>j. bind (py_index all_cs j) (\<lambda>row. py_index row 0)))
                    soft_neg_samples)
              (\<lambda>soft_neg_cs. cat3 pos_cs_diag neg_cs soft_neg_cs)))"

text \<open>
  \<open>loss_func\<close> (lines 224-257). \<open>1.0 / self.temperature\<close> divides Python numbers. The
  rows and the similarities are real numbers; a row of norm zero, which gives NaN in
  the tensor, is outside this model.
\<close>

definition loss_func ::
  "torch \<Rightarrow> loss_cfg \<Rightarrow> int list \<Rightarrow> real list list list
     \<Rightarrow> error + (real \<times> real list list \<times> real list list)" where
  "loss_func T cfg loss_mask output_tensor =
     bind (eos_rows output_tensor loss_mask) (\<lambda>eos_tensors.
       let query_hs = slice3 0 eos_tensors;
           pos_doc_hs = slice3 1 eos_tensors;
           neg_doc_hs = slice3 2 eos_tensors
       in bind (rowwise (cosine_similarity T) query_hs neg_doc_hs) (\<lambda>neg_raw.
            if temperature cfg = 0 then Inl ZeroDivisionError
            else
              (let inv_t = 1 / temperature cfg;
                   neg_cs = map (\<lambda>c. c * inv_t) neg_raw;
                   query_n = map (normalize_row T) query_hs;
                   pos_doc_n = map (normalize_row T) pos_doc_hs
               in bind
                    (if num_soft_negatives cfg > 0
                     then soft_negative_cs T cfg inv_t query_n pos_doc_n neg_cs
                     else bind (rowwise (cosine_similarity T) query_n pos_doc_n) (\<lambda>pos_raw.
                            cat2 (map (\<lambda>c. c * inv_t) pos_raw) neg_cs))
                    (\<lambda>cs.
                       let loss = cross_entropy T cs (replicate (length cs) 0);
                           cp_size = (case context_parallel_size cfg of None \<Rightarrow> 1 | Some c \<Rightarrow> c)
                       in Inr (if cp_size > 1 then loss + sum_list (cp_peer_losses T) else loss,
                               query_n, pos_doc_n)))))"

text \<open>
  The loss as the claim words it, for a batch given as its examples: the rows of the
  query, the positive and the negative document of each. The two similarities of an
  example are scaled by \<open>1 / temperature\<close>; the positive one is taken on the normalized
  rows, as the source does, the negative one on the rows as they are.
\<close>

definition contrastive_loss ::
  "torch \<Rightarrow> real \<Rightarrow> (real list \<times> real list \<times> real list) list
     \<Rightarrow> real \<times> real list list \<times> real list list" where
  "contrastive_loss T temp examples =
     (cross_entropy T
        (map (\<lambda>(q, p, n). [cosine_similarity T (normalize_row T q) (normalize_row T p) * (1 / temp),
                            cosine_similarity T q n * (1 / temp)]) examples)
        (replicate (length examples) 0),
      map (\<lambda>(q, p, n). normalize_row T q) examples,
      map (\<lambda>(q, p, n). normalize_row T p) examples)"

text \<open>
  The examples that \<open>loss_mask\<close> selects: column \<open>k\<close> of the batch contributes the row
  at sequence position \<open>loss_mask[k]\<close>, and example \<open>i\<close> is made of the columns \<open>3i\<close>
  (query), \<open>3i + 1\<close> (positive document) and \<open>3i + 2\<close> (negative document).
\<close>

definition eos_row :: "real list list list \<Rightarrow> int list \<Rightarrow> nat \<Rightarrow> real list" where
  "eos_row output_tensor loss_mask k = output_tensor ! nat (loss_mask ! k) ! k"

definition selected_examples ::
  "real list list list \<Rightarrow> int list \<Rightarrow> nat \<Rightarrow> (real list \<times> real list \<times> real list) list" where
  "selected_examples output_tensor loss_mask n =
     map (\<lambda>i. (eos_row output_tensor loss_mask (3 * i),
                eos_row output_tensor loss_mask (3 * i + 1),
                eos_row output_tensor loss_mask (3 * i + 2))) [0 ..< n]"

text \<open>
  An example library over the real numbers: the Euclidean norm, the cosine similarity
  with the bound \<open>eps = 1e-8\<close> on the product of the norms, the mean cross-entropy of
  the rows, a sampler that always draws index 0, and one other rank in the
  context-parallel group, which holds the loss 1.
\<close>

definition example_torch :: torch where
  "example_torch =
     \<lparr>cosine_similarity =
        (\<lambda>u v. dot u v / max (sqrt (dot u u) * sqrt (dot v v)) (1 / 10 ^ 8)),
      torch_norm = (\<lambda>u. sqrt (dot u u)),
      cross_entropy =
        (\<lambda>cs targets. sum_list (map (\<lambda>(row, t). ln (sum_list (map exp row)) - row ! t)
                                  (zip cs targets)) / real (length cs)),
      multinomial = (\<lambda>n k. replicate n (replicate k 0)),
      cp_peer_losses = [1]\<rparr>"

text \<open>
  A batch of one example with sequence length 2 and hidden size 2: the query ends at
  position 0, the positive document at position 1, the negative document at position 0.
\<close>

definition example_output :: "real list list list" where
  "example_output = [[[1, 0], [9, 9], [0, 1]], [[7, 7], [3, 4], [8, 8]]]"

definition example_loss_mask :: "int list" where
  "example_loss_mask = [0, 1, 0]"

definition example_loss_cfg :: "int option \<Rightarrow> loss_cfg" where
  "example_loss_cfg cp = \<lparr>temperature = 1 / 20, num_soft_negatives = 0, context_parallel_size = cp\<rparr>"

section \<open>Llama cross-attention text model (nemo/collections/vlm/llama/model/language.py)\<close>

subsection \<open>Tensors and Python values\<close>

text \<open>
  A tensor is a number (no axis) or the list of its slices along the first axis. The
  arithmetic of tensors is that of the real numbers: rounding is not modelled.
\<close>

datatype tensor = Num real | Arr "tensor list"

text \<open>What a module call returns: None, a tensor, or a tuple of optional tensors.\<close>

datatype pyval = PyNone | PyTensor tensor | PyTuple "tensor option list"

text \<open>
  \<open>g * t\<close> for a tensor \<open>g\<close> of shape \<open>[1]\<close> (a gate): every entry of \<open>t\<close> is
  multiplied by the entry of \<open>g\<close>; a \<open>t\<close> with no axis is broadcast to shape \<open>[1]\<close>.
\<close>

fun scale :: "real \<Rightarrow> tensor \<Rightarrow> tensor" where
  "scale g (Num x) = Num (g * x)"
| "scale g (Arr ts) = Arr (map (scale g) ts)"

fun gate_mul :: "real \<Rightarrow> tensor \<Rightarrow> tensor" where
  "gate_mul g (Num x) = Arr [Num (g * x)]"
| "gate_mul g (Arr ts) = scale g (Arr ts)"

text \<open>
  The generator \<open>tuple(g * output if output is not None else None for output in outs)\<close>.
\<close>

definition gate_tuple :: "real \<Rightarrow> tensor option list \<Rightarrow> tensor option list" where
  "gate_tuple g outs = map (map_option (gate_mul g)) outs"

subsection \<open>CrossAttentionTransformerLayer\<close>

text \<open>
  The layer holds its two gates (tensors of shape \<open>[1]\<close>, here their entry) and the
  submodules that \<open>TransformerLayer.__init__\<close> builds from the layer spec; those are
  Megatron modules and are functions here. \<open>cross_attention\<close> takes the hidden states
  and the remaining arguments of the call (masks, cache, rotary embedding, inference
  parameters) as one value of type \<open>'x\<close>. \<open>cross_attn_bda\<close> and \<open>mlp_bda\<close> are the
  bias-dropout-add functions already applied to \<open>self.training\<close>,
  \<open>config.bias_dropout_fusion\<close> and, as last argument, \<open>self.hidden_dropout\<close>: they
  take the tuple (output, bias) and the residual.
\<close>

record 'x xattn_layer =
  layer_number :: nat
  gate_attn :: real
  gate_ffn :: real
  pre_cross_attn_layernorm :: "tensor \<Rightarrow> tensor"
  cross_attention :: "tensor \<Rightarrow> 'x \<Rightarrow> pyval"
  cross_attn_bda :: "tensor option list \<Rightarrow> tensor \<Rightarrow> tensor"
  pre_mlp_layernorm :: "tensor \<Rightarrow> tensor"
  mlp :: "tensor \<Rightarrow> pyval"
  mlp_bda :: "tensor option list \<Rightarrow> tensor \<Rightarrow> tensor"

text \<open>
  \<open>CrossAttentionTransformerLayer.__init__\<close> (lines 443-458): the submodules of the
  spec, and both gates \<open>torch.zeros(1)\<close>.
\<close>

definition xattn_layer_init :: "'x xattn_layer \<Rightarrow> nat \<Rightarrow> 'x xattn_layer" where
  "xattn_layer_init submodules n = submodules\<lparr>layer_number := n, gate_attn := 0, gate_ffn := 0\<rparr>"

text \<open>
  \<open>CrossAttentionTransformerLayer.forward\<close> (lines 463-540). The two assertions fail on
  a submodule result that is not a tuple. Line 519 multiplies the outputs of the MLP by
  \<open>_gate_attn\<close>; \<open>_gate_ffn\<close>, computed on line 515, is not used after that.
  \<open>make_viewless_tensor\<close> does not change the value. The result is the tuple
  \<open>(output, None)\<close>.
\<close>

definition xattn_forward :: "'x xattn_layer \<Rightarrow> tensor \<Rightarrow> 'x \<Rightarrow> error + pyval" where
  "xattn_forward L hidden_states args =
     (let residual = hidden_states;
          pre_cross_attn_layernorm_output = pre_cross_attn_layernorm L hidden_states;
          attention_output_with_bias = cross_attention L pre_cross_attn_layernorm_output args;
          g_attn = tanh (gate_attn L)
      in case attention_output_with_bias of
           PyTuple outs \<Rightarrow>
             (let hidden_states1 = cross_attn_bda L (gate_tuple g_attn outs) residual;
                  residual1 = hidden_states1;
                  pre_mlp_layernorm_output = pre_mlp_layernorm L hidden_states1;
                  mlp_output_with_bias = mlp L pre_mlp_layernorm_output;
                  g_ffn = tanh (gate_ffn L)
              in case mlp_output_with_bias of
                   PyTuple outs2 \<Rightarrow>
                     Inr (PyTuple [Some (mlp_bda L (gate_tuple g_attn outs2) residual1), None])
                 | _ \<Rightarrow> Inl AssertionError)
         | _ \<Rightarrow> Inl AssertionError)"

text \<open>
  The forward pass as the claim words it: the same steps, with the outputs of the MLP
  scaled by \<open>tanh(gate_ffn)\<close>.
\<close>

definition xattn_forward_claimed :: "'x xattn_layer \<Rightarrow> tensor \<Rightarrow> 'x \<Rightarrow> error + pyval" where
  "xattn_forward_claimed L hidden_states args =
     (let residual = hidden_states;
          pre_cross_attn_layernorm_output = pre_cross_attn_layernorm L hidden_states;
          attention_output_with_bias = cross_attention L pre_cross_attn_layernorm_output args;
          g_attn = tanh (gate_attn L)
      in case attention_output_with_bias of
           PyTuple outs \<Rightarrow>
             (let hidden_states1 = cross_attn_bda L (gate_tuple g_attn outs) residual;
                  residual1 = hidden_states1;
                  pre_mlp_layernorm_output = pre_mlp_layernorm L hidden_states1;
                  mlp_output_with_bias = mlp L pre_mlp_layernorm_output;
                  g_ffn = tanh (gate_ffn L)
              in case mlp_output_with_bias of
                   PyTuple outs2 \<Rightarrow>
                     Inr (PyTuple [Some (mlp_bda L (gate_tuple g_ffn outs2) residual1), None])
                 | _ \<Rightarrow> Inl AssertionError)
         | _ \<Rightarrow> Inl AssertionError)"

subsection \<open>An example layer\<close>

text \<open>
  Entrywise sum of two tensors of one shape, and bias-dropout-add without dropout: the
  output, plus the bias if there is one, is added to the residual.
\<close>

function tadd :: "tensor \<Rightarrow> tensor \<Rightarrow> tensor" where
  "tadd (Num a) (Num b) = Num (a + b)"
| "tadd (Arr xs) (Arr ys) = Arr (map (\<lambda>(x, y). tadd x y) (zip xs ys))"
| "tadd (Num a) (Arr ys) = Arr ys"
| "tadd (Arr xs) (Num b) = Arr xs"
  by pat_completeness auto
termination
proof (relation "measure (\<lambda>(x, y). size x)", goal_cases)
  case 1
  show ?case by simp
next
  case (2 xs ys z x y)
  then have "x \<in> set xs"
    by (auto dest: set_zip_leftD)
  then have "size x \<le> size_list size xs"
    by (simp add: size_list_estimation')
  then show ?case by simp
qed

fun bias_add :: "tensor option list \<Rightarrow> tensor \<Rightarrow> tensor" where
  "bias_add [Some x, None] residual = tadd residual x"
| "bias_add [Some x, Some bias] residual = tadd residual (tadd x bias)"
| "bias_add outs residual = residual"

text \<open>
  A layer after training: \<open>gate_attn\<close> still 0, \<open>gate_ffn\<close> 1; the layer norms are the
  identity (\<open>IdentityOp\<close>), attention and MLP return their input with no bias.
\<close>

definition example_layer :: "'x xattn_layer" where
  "example_layer =
     \<lparr>layer_number = 4, gate_attn = 0, gate_ffn = 1,
      pre_cross_attn_layernorm = (\<lambda>t. t),
      cross_attention = (\<lambda>t x. PyTuple [Some t, None]),
      cross_attn_bda = bias_add,
      pre_mlp_layernorm = (\<lambda>t. t),
      mlp = (\<lambda>t. PyTuple [Some t, None]),
      mlp_bda = bias_add\<rparr>"

definition example_hidden :: tensor where
  "example_hidden = Arr [Arr [Arr [Num 1, Num 2]]]"

subsection \<open>CrossAttentionTransformerBlock\<close>

text \<open>The fields of the transformer config that the block reads.\<close>

record config =
  fusion_schedule :: "int list"
  sequence_parallel :: bool
  fp8 :: "string option"
  fp8_wgrad :: bool
  recompute_granularity :: "string option"
  enable_cuda_graph :: bool
  cpu_offloading :: bool

text \<open>
  The keyword arguments of a cross-attention layer call. \<open>inference_params\<close> and
  \<open>packed_seq_params\<close> are handed through to the Megatron modules and are left out.
\<close>

record 'c xattn_kwargs =
  cross_attention_masks :: "tensor option"
  xattn_cache :: 'c
  full_text_row_masked_out_mask :: "tensor option"
  rotary_pos_emb :: "tensor option"

text \<open>
  A slot of \<open>xattn_and_dummy_layers\<close>: a cross-attention layer or a dummy.
  \<open>DummyCrossAttentionTransformerLayer.__call__\<close> (lines 546-552) returns its
  \<open>hidden_states\<close> argument, a tensor and not a tuple.
\<close>

datatype 'c slot =
    CrossAttentionTransformerLayer "'c xattn_kwargs xattn_layer"
  | DummyCrossAttentionTransformerLayer

fun call_slot :: "'c slot \<Rightarrow> tensor \<Rightarrow> 'c xattn_kwargs \<Rightarrow> error + pyval" where
  "call_slot (CrossAttentionTransformerLayer L) hidden_states kw = xattn_forward L hidden_states kw"
| "call_slot DummyCrossAttentionTransformerLayer hidden_states kw = Inr (PyTensor hidden_states)"

text \<open>
  The block after \<open>TransformerBlock.__init__\<close> and its own \<open>__init__\<close>. A text layer
  (a Megatron \<open>TransformerLayer\<close>) maps the hidden states to the pair (hidden states,
  context); a CUDA graph maps the hidden states and the flag \<open>is_first_microbatch\<close> to
  hidden states. \<open>grad_enabled\<close> is what \<open>torch.is_grad_enabled()\<close> answers.
\<close>

record 'c block =
  config :: config
  pre_process :: bool
  input_tensor :: tensor
  training :: bool
  grad_enabled :: bool
  model_parallel_is_initialized :: bool
  num_layers_per_pipeline_rank :: nat
  layers :: "(tensor \<Rightarrow> tensor \<times> tensor option) list"
  xattn_layers :: "'c xattn_kwargs xattn_layer list"
  xattn_and_dummy_layers :: "'c slot list"
  cuda_graphs :: "(tensor \<Rightarrow> bool \<Rightarrow> tensor) list list"
  current_microbatch :: nat
  group_prefetch_offload_commit_async :: "(tensor \<Rightarrow> tensor) option"
  final_layernorm :: "(tensor \<Rightarrow> tensor) option"

text \<open>
  \<open>__init__\<close> (lines 261-305), given the block as \<open>TransformerBlock.__init__\<close> left it
  and the submodules of the layer spec. Index \<open>i\<close> gets a cross-attention layer, built
  with layer number \<open>i + 1\<close>, if \<open>i in self.fusion_schedule\<close>, and a dummy otherwise.
  The assertion compares the number of slots with the number of text layers.
\<close>

definition make_slot :: "config \<Rightarrow> 'c xattn_kwargs xattn_layer \<Rightarrow> nat \<Rightarrow> 'c slot" where
  "make_slot cfg submodules i =
     (if int i \<in> set (fusion_schedule cfg)
      then CrossAttentionTransformerLayer (xattn_layer_init submodules (i + 1))
      else DummyCrossAttentionTransformerLayer)"

definition block_init :: "'c block \<Rightarrow> 'c xattn_kwargs xattn_layer \<Rightarrow> error + 'c block" where
  "block_init B submodules =
     (let idx = [0 ..< num_layers_per_pipeline_rank B];
          slots = map (make_slot (config B) submodules) idx;
          xs = map (\<lambda>i. xattn_layer_init submodules (i + 1))
                 (filter (\<lambda>i. int i \<in> set (fusion_schedule (config B))) idx)
      in if length slots = length (layers B)
         then Inr (B\<lparr>xattn_layers := xs, xattn_and_dummy_layers := slots\<rparr>)
         else Inl AssertionError)"

text \<open>
  Context managers. None of the three classes defines \<open>__bool__\<close> or \<open>__len__\<close>, so
  each object is true, and \<open>a and b\<close> is \<open>b\<close> for a true \<open>a\<close>.
  \<open>fp8_autocast\<close> keeps the format, the third entry of \<open>override_linear_precision\<close>
  and whether an amax reduction group was passed.
\<close>

datatype fp8_format = E4M3 | HYBRID

datatype context_manager = nullcontext | cuda_rng_fork | fp8_autocast fp8_format bool bool

definition truthy :: "context_manager \<Rightarrow> bool" where
  "truthy cm = True"

definition py_and :: "context_manager \<Rightarrow> context_manager \<Rightarrow> context_manager" where
  "py_and a b = (if truthy a then b else a)"

text \<open>
  Lines 351-373. \<open>config.fp8\<close> is None or a string; the empty string is false. The
  module-level names of Transformer Engine are taken to be defined (\<open>HAVE_TE\<close>).
\<close>

definition make_fp8_context :: "'c block \<Rightarrow> error + context_manager" where
  "make_fp8_context B =
     (case fp8 (config B) of
        None \<Rightarrow> Inr nullcontext
      | Some s \<Rightarrow>
          if s = [] then Inr nullcontext
          else if s = ''e4m3''
            then Inr (fp8_autocast E4M3 (\<not> fp8_wgrad (config B)) (model_parallel_is_initialized B))
          else if s = ''hybrid''
            then Inr (fp8_autocast HYBRID (\<not> fp8_wgrad (config B)) (model_parallel_is_initialized B))
          else Inl (ValueError ''E4M3 and HYBRID are the only supported FP8 formats.''))"

text \<open>
  Unpacking \<open>a, b = v\<close>. A tuple must have two entries. A tensor is iterated along its
  first axis, so it must have exactly two slices there, which become \<open>a\<close> and \<open>b\<close>; a
  tensor without axis and None cannot be iterated.
\<close>

definition unpack_error :: "nat \<Rightarrow> error" where
  "unpack_error n =
     (if n > 2 then ValueError ''too many values to unpack (expected 2)''
      else if n = 1 then ValueError ''not enough values to unpack (expected 2, got 1)''
      else ValueError ''not enough values to unpack (expected 2, got 0)'')"

fun unpack2 :: "pyval \<Rightarrow> error + (tensor option \<times> tensor option)" where
  "unpack2 (PyTuple [a, b]) = Inr (a, b)"
| "unpack2 (PyTuple xs) = Inl (unpack_error (length xs))"
| "unpack2 (PyTensor (Arr [a, b])) = Inr (Some a, Some b)"
| "unpack2 (PyTensor (Arr ts)) = Inl (unpack_error (length ts))"
| "unpack2 (PyTensor (Num x)) = Inl TypeError"
| "unpack2 PyNone = Inl TypeError"

text \<open>
  What a forward pass does, in order: the context manager of the \<open>with\<close> statement
  entered and left, and every call of a layer with its loop index (a cross-attention
  layer or a dummy also with the cache it was given).
\<close>

datatype 'c event =
    Enter context_manager
  | Exit context_manager
  | Run_xattn nat 'c
  | Run_dummy nat 'c
  | Run_text nat
  | Replay_graph nat nat
  | Offload_commit nat
  | Run_final_layernorm

fun slot_event :: "'c slot \<Rightarrow> nat \<Rightarrow> 'c \<Rightarrow> 'c event" where
  "slot_event (CrossAttentionTransformerLayer L) l_no c = Run_xattn l_no c"
| "slot_event DummyCrossAttentionTransformerLayer l_no c = Run_dummy l_no c"

text \<open>
  Lines 422-427, after each layer: the offload commit.
\<close>

definition offload_commit :: "'c block \<Rightarrow> nat \<Rightarrow> tensor \<Rightarrow> 'c event list \<times> tensor" where
  "offload_commit B l_no hs =
     (case group_prefetch_offload_commit_async B of
        Some f \<Rightarrow> if grad_enabled B \<and> cpu_offloading (config B)
                  then ([Offload_commit l_no], f hs) else ([], hs)
      | None \<Rightarrow> ([], hs))"

text \<open>
  Lines 381-420, one round of the loop for the pair (\<open>layer\<close>, \<open>xattn_layer\<close>) at index
  \<open>l_no\<close>. \<open>xattn_caches[l_no]\<close> is evaluated with the arguments of the first call:
  None cannot be indexed, and a list must be long enough. The text layer needs hidden
  states that are a tensor.
\<close>

definition layer_step ::
  "'c block \<Rightarrow> 'c xattn_kwargs \<Rightarrow> 'c list option \<Rightarrow> nat
     \<Rightarrow> (tensor \<Rightarrow> tensor \<times> tensor option) \<times> 'c slot \<Rightarrow> tensor
     \<Rightarrow> 'c event list \<times> (error + tensor)" where
  "layer_step B kw xattn_caches l_no p hidden_states =
     (if length (cuda_graphs B) = 0 \<or> \<not> training B then
        (case xattn_caches of
           None \<Rightarrow> ([], Inl TypeError)
         | Some caches \<Rightarrow>
            (case py_index caches l_no of
               Inl e \<Rightarrow> ([], Inl e)
             | Inr c \<Rightarrow>
                (case bind (call_slot (snd p) hidden_states (kw\<lparr>xattn_cache := c\<rparr>)) unpack2 of
                   Inl e \<Rightarrow> ([slot_event (snd p) l_no c], Inl e)
                 | Inr (None, context) \<Rightarrow> ([slot_event (snd p) l_no c, Run_text l_no], Inl Exception)
                 | Inr (Some h, context) \<Rightarrow>
                    (case fst p h of (h', context') \<Rightarrow>
                       if context' = None \<or> \<not> enable_cuda_graph (config B) \<or> \<not> training B
                       then (case offload_commit B l_no h' of (ev, h'') \<Rightarrow>
                               ([slot_event (snd p) l_no c, Run_text l_no] @ ev, Inr h''))
                       else ([slot_event (snd p) l_no c, Run_text l_no], Inl AssertionError)))))
      else
        (if length (cuda_graphs B) > l_no \<and> current_microbatch B < length (cuda_graphs B ! l_no)
         then (case offload_commit B l_no
                       ((cuda_graphs B ! l_no ! current_microbatch B) hidden_states
                          (current_microbatch B = 0)) of
                 (ev, h'') \<Rightarrow> (Replay_graph l_no (current_microbatch B) # ev, Inr h''))
         else ([], Inl AssertionError)))"

text \<open>Line 380: the loop over \<open>enumerate(zip(self.layers, self.xattn_and_dummy_layers))\<close>.\<close>

fun forward_loop ::
  "'c block \<Rightarrow> 'c xattn_kwargs \<Rightarrow> 'c list option \<Rightarrow> nat
     \<Rightarrow> ((tensor \<Rightarrow> tensor \<times> tensor option) \<times> 'c slot) list \<Rightarrow> tensor
     \<Rightarrow> 'c event list \<times> (error + tensor)" where
  "forward_loop B kw xattn_caches l_no [] hidden_states = ([], Inr hidden_states)"
| "forward_loop B kw xattn_caches l_no (p # ps) hidden_states =
     (case layer_step B kw xattn_caches l_no p hidden_states of
        (ev, Inl e) \<Rightarrow> (ev, Inl e)
      | (ev, Inr h) \<Rightarrow>
          (case forward_loop B kw xattn_caches (Suc l_no) ps h of
             (ev', r) \<Rightarrow> (ev @ ev', r)))"

text \<open>
  \<open>forward\<close> (lines 307-439). The \<open>with\<close> statement enters the value of
  \<open>rng_context and fp8_context\<close>; an exception inside leaves the context and goes on to
  the caller. \<open>kw\<close> holds the keyword arguments of the layer calls; its cache is set
  per layer.
\<close>

definition block_forward ::
  "'c block \<Rightarrow> tensor \<Rightarrow> 'c xattn_kwargs \<Rightarrow> 'c list option
     \<Rightarrow> 'c event list \<times> (error + tensor)" where
  "block_forward B hidden_states kw xattn_caches =
     (let hs = (if \<not> pre_process B then input_tensor B else hidden_states);
          rng_context = (if sequence_parallel (config B) then cuda_rng_fork else nullcontext)
      in case make_fp8_context B of
           Inl e \<Rightarrow> ([], Inl e)
         | Inr fp8_context \<Rightarrow>
            (let cm = py_and rng_context fp8_context in
             if recompute_granularity (config B) = Some ''full'' \<and> training B
             then ([Enter cm, Exit cm], Inl NotImplementedError)
             else
               (case forward_loop B kw xattn_caches 0
                       (zip (layers B) (xattn_and_dummy_layers B)) hs of
                  (ev, Inl e) \<Rightarrow> (Enter cm # ev @ [Exit cm], Inl e)
                | (ev, Inr h) \<Rightarrow>
                    (case final_layernorm B of
                       None \<Rightarrow> (Enter cm # ev @ [Exit cm], Inr h)
                     | Some layernorm \<Rightarrow>
                         (Enter cm # ev @ [Exit cm, Run_final_layernorm], Inr (layernorm h))))))"

text \<open>The events that are calls of a layer of the loop.\<close>

fun is_layer_event :: "'c event \<Rightarrow> bool" where
  "is_layer_event (Enter cm) = False"
| "is_layer_event (Exit cm) = False"
| "is_layer_event Run_final_layernorm = False"
| "is_layer_event e = True"

subsection \<open>An example block\<close>

text \<open>
  Two text layers that return their input with no context, the fusion schedule and the
  FP8 setting as given, caches that are numbers. \<open>example_block\<close> is the block after
  \<open>__init__\<close>.
\<close>

definition example_base :: "string option \<Rightarrow> int list \<Rightarrow> nat block" where
  "example_base f sched =
     \<lparr>config = \<lparr>fusion_schedule = sched, sequence_parallel = True, fp8 = f, fp8_wgrad = True,
                 recompute_granularity = None, enable_cuda_graph = False,
                 cpu_offloading = False\<rparr>,
      pre_process = True, input_tensor = Num 0, training = False, grad_enabled = False,
      model_parallel_is_initialized = True,
      num_layers_per_pipeline_rank = 2,
      layers = [\<lambda>t. (t, None), \<lambda>t. (t, None)],
      xattn_layers = [], xattn_and_dummy_layers = [],
      cuda_graphs = [], current_microbatch = 0,
      group_prefetch_offload_commit_async = None,
      final_layernorm = None\<rparr>"

definition example_block :: "string option \<Rightarrow> int list \<Rightarrow> nat block" where
  "example_block f sched =
     (case block_init (example_base f sched) example_layer of
        Inr B \<Rightarrow> B
      | Inl e \<Rightarrow> example_base f sched)"

definition example_kw :: "nat xattn_kwargs" where
  "example_kw = \<lparr>cross_attention_masks = None, xattn_cache = 0,
                 full_text_row_masked_out_mask = None, rotary_pos_emb = None\<rparr>"

text \<open>Hidden states of shape \<open>[3, 1, 2]\<close> and of shape \<open>[2, 1, 2]\<close>.\<close>

definition example_hidden3 :: tensor where
  "example_hidden3 = Arr [Arr [Arr [Num 1, Num 2]], Arr [Arr [Num 3, Num 4]],
                          Arr [Arr [Num 5, Num 6]]]"

definition example_hidden2 :: tensor where
  "example_hidden2 = Arr [Arr [Arr [Num 1, Num 2]], Arr [Arr [Num 3, Num 4]]]"

subsection \<open>CrossAttentionTextModel.get_partially_trainable_embedding\<close>

text \<open>
  \<open>t.transpose(0, 1)\<close> of a tensor with at least two axes, as a list of lists:
  entry \<open>[j][i]\<close> of the result is entry \<open>[i][j]\<close> of \<open>t\<close>.
\<close>

definition transpose01 :: "'a list list \<Rightarrow> 'a list list" where
  "transpose01 t =
     map (\<lambda>j. map (\<lambda>row. row ! j) t) [0 ..< (case t of [] \<Rightarrow> 0 | r # _ \<Rightarrow> length r)]"

text \<open>
  The text model: the number of frozen embeddings and the two embedding tables.
  \<open>word_embeddings\<close> gives the row that \<open>self.embedding\<close> (Megatron's
  \<open>LanguageModelEmbedding\<close>, without dropout) computes for a token id at a position id,
  \<open>learnable\<close> the row of \<open>self.learnable_embedding\<close> for an index. The module
  \<open>self.embedding\<close> maps ids and position ids of shape \<open>[b, s]\<close> to rows in the layout
  \<open>[s, b, h]\<close>; \<open>self.learnable_embedding\<close> keeps the layout \<open>[b, s, h]\<close>.
\<close>

record text_model =
  num_frozen_embeddings :: int
  word_embeddings :: "int \<Rightarrow> int \<Rightarrow> real list"
  learnable :: "int \<Rightarrow> real list"

definition thresh :: "text_model \<Rightarrow> int" where
  "thresh M = num_frozen_embeddings M - 1"

definition embedding :: "text_model \<Rightarrow> int list list \<Rightarrow> int list list \<Rightarrow> real list list list" where
  "embedding M ids position_ids =
     transpose01 (map (\<lambda>(row, prow). map (\<lambda>(t, p). word_embeddings M t p) (zip row prow))
                      (zip ids position_ids))"

definition learnable_embedding :: "text_model \<Rightarrow> int list list \<Rightarrow> real list list list" where
  "learnable_embedding M ids = map (map (learnable M)) ids"

text \<open>
  \<open>torch.where(cond, xz, oz).unsqueeze(-1).transpose(0, 1)\<close>: 0 where the condition
  holds and 1 elsewhere, each in a last axis of length 1, in the layout \<open>[s, b, 1]\<close>.
\<close>

definition mask_where :: "(int \<Rightarrow> bool) \<Rightarrow> int list list \<Rightarrow> real list list list" where
  "mask_where cond x = transpose01 (map (map (\<lambda>v. [if cond v then 0 else 1])) x)"

text \<open>
  \<open>e * m\<close> for rows \<open>e\<close> in the layout \<open>[s, b, h]\<close> and a mask \<open>m\<close> in the layout
  \<open>[s, b, 1]\<close>: the one entry of the mask multiplies the whole row. \<open>a + b\<close> entry by
  entry.
\<close>

definition mul_mask :: "real list list list \<Rightarrow> real list list list \<Rightarrow> real list list list" where
  "mul_mask e m =
     map (\<lambda>(erow, mrow). map (\<lambda>(v, k). map (\<lambda>a. a * hd k) v) (zip erow mrow)) (zip e m)"

definition add3 :: "real list list list \<Rightarrow> real list list list \<Rightarrow> real list list list" where
  "add3 a b =
     map (\<lambda>(arow, brow). map (\<lambda>(u, v). map (\<lambda>(p, q). p + q) (zip u v)) (zip arow brow)) (zip a b)"

text \<open>Lines 243-257.\<close>

definition mask_orig :: "text_model \<Rightarrow> int list list \<Rightarrow> real list list list" where
  "mask_orig M x = mask_where (\<lambda>v. v \<ge> num_frozen_embeddings M) x"

definition mask_new :: "text_model \<Rightarrow> int list list \<Rightarrow> real list list list" where
  "mask_new M x = mask_where (\<lambda>v. v < num_frozen_embeddings M) x"

definition get_partially_trainable_embedding ::
  "text_model \<Rightarrow> int list list \<Rightarrow> int list list \<Rightarrow> real list list list" where
  "get_partially_trainable_embedding M x position_ids =
     (let x_orig = map (map (\<lambda>v. min v (thresh M))) x;
          x_new = map (map (\<lambda>v. max v (thresh M + 1) - num_frozen_embeddings M)) x;
          x_orig_e = embedding M x_orig position_ids;
          x_new_e = transpose01 (learnable_embedding M x_new)
      in add3 (mul_mask x_orig_e (mask_orig M x)) (mul_mask x_new_e (mask_new M x)))"

text \<open>
  An example: three frozen embeddings and hidden size 2; the frozen row of an id is
  (id, position), the learnable row of an index is (100 + index, 0).
\<close>

definition example_model :: text_model where
  "example_model =
     \<lparr>num_frozen_embeddings = 3,
      word_embeddings = (\<lambda>t p. [real_of_int t, real_of_int p]),
      learnable = (\<lambda>k. [100 + real_of_int k, 0])\<rparr>"

subsection \<open>apply_rope_scaling\<close>

text \<open>
  Lines 942-966, for one entry \<open>f\<close> of \<open>inv_freq\<close>; every tensor operation of the
  function works entry by entry. \<open>~a * ~b\<close> on boolean tensors is the conjunction of
  the negations. The arithmetic is that of the real numbers, which is the tensor
  arithmetic without rounding as long as no tensor is divided by zero (a zero entry of
  \<open>inv_freq\<close>, \<open>factor = 0\<close>, or equal frequency factors): there the tensors hold
  infinities and NaNs, which this model does not have.
\<close>

definition rope_entry :: "real \<Rightarrow> real \<Rightarrow> real \<Rightarrow> real \<Rightarrow> real \<Rightarrow> real" where
  "rope_entry factor low_freq_factor high_freq_factor old_context_len f =
     (let low_freq_wavelen = old_context_len / low_freq_factor;
          high_freq_wavelen = old_context_len / high_freq_factor;
          wavelen = 2 * pi / f;
          inv_freq_llama = (if wavelen > low_freq_wavelen then f / factor else f);
          smooth_factor = (old_context_len / wavelen - low_freq_factor)
                            / (high_freq_factor - low_freq_factor);
          smoothed_inv_freq = (1 - smooth_factor) * inv_freq_llama / factor
                                + smooth_factor * inv_freq_llama;
          is_medium_freq = (\<not> wavelen < high_freq_wavelen \<and> \<not> wavelen > low_freq_wavelen)
      in if is_medium_freq then smoothed_inv_freq else inv_freq_llama)"

text \<open>
  The function. \<open>old_context_len / low_freq_factor\<close> and \<open>old_context_len /
  high_freq_factor\<close> divide Python numbers, so a zero factor raises ZeroDivisionError
  before any tensor is touched.
\<close>

definition apply_rope_scaling ::
  "real list \<Rightarrow> real \<Rightarrow> real \<Rightarrow> real \<Rightarrow> real \<Rightarrow> error + real list" where
  "apply_rope_scaling inv_freq factor low_freq_factor high_freq_factor old_context_len =
     (if low_freq_factor = 0 \<or> high_freq_factor = 0 then Inl ZeroDivisionError
      else Inr (map (rope_entry factor low_freq_factor high_freq_factor old_context_len)
                  inv_freq))"

section \<open>Theorems\<close>

subsection \<open>Sequencing\<close>

lemma bind_Inl [simp]: "bind (Inl e) f = Inl e"
  by (simp add: bind_def)

lemma bind_Inr [simp]: "bind (Inr v) f = f v"
  by (simp add: bind_def)

subsection \<open>Gemma\<close>

lemma TEMPLATE_dom: "dom TEMPLATE = {''user'', ''assistant''}"
  by (auto simp: TEMPLATE_def TEMPLATE_items_def OUTPUT_ROLE_def dom_map_of_conv_image_fst)

text \<open>
  The dialog that \<open>gemma1\<close> passes to \<open>encode_dialog\<close> for a cut is the list
  \<open>gemma1_turns\<close> of that cut.
\<close>

lemma gemma1_passes_turns:
  assumes "gemma1_turns ct = Inr turns"
  shows "gemma1 encode_dialog (ct # cuts) =
           bind (encode_dialog turns) (\<lambda>items.
             gemma1_loop encode_dialog cuts (append_items items (\<lambda>k. [])))"
  using assms by (simp add: gemma1_def)

text \<open>
  C9. A cut that carries a custom \<open>system_prompt\<close> and for which \<open>gemma1\<close> reaches the
  call of \<open>encode_dialog\<close> (a context can be read and there is a first supervision)
  passes a dialog whose first turn has the role \<open>system_and_user\<close>, with the system
  prompt and the context as its slots; that role is not a key of
  \<open>GemmaPromptFormatter.TEMPLATE\<close>, whose keys are exactly \<open>user\<close> and \<open>assistant\<close>.
\<close>

theorem system_and_user_role_not_in_TEMPLATE:
  assumes "custom (effective_cut ct) ''system_prompt'' = Some sp"
    and "select_context (effective_cut ct) = Inr context"
    and "supervisions (effective_cut ct) \<noteq> []"
  shows "(\<exists>rest. gemma1_turns ct =
            Inr (\<lparr>role = ''system_and_user'',
                  slots = [(''system'', sp), (''message'', context)]\<rparr> # rest))
          \<and> ''system_and_user'' \<notin> dom TEMPLATE
          \<and> dom TEMPLATE = {''user'', ''assistant''}"
proof -
  let ?c = "effective_cut ct"
  have ft: "first_turn ?c =
      Inr \<lparr>role = ''system_and_user'', slots = [(''system'', sp), (''message'', context)]\<rparr>"
    using assms(1,2) by (simp add: first_turn_def has_custom_def getattr_def)
  obtain s ss where sup: "supervisions ?c = s # ss"
    using assms(3) by (cases "supervisions ?c") auto
  have "\<exists>rest. gemma1_turns ct =
            Inr (\<lparr>role = ''system_and_user'',
                  slots = [(''system'', sp), (''message'', context)]\<rparr> # rest)"
    using ft sup
    by (cases "text_of s") (simp_all add: gemma1_turns_def Let_def py_index_def)
  then show ?thesis
    by (simp add: TEMPLATE_dom)
qed

theorem system_and_user_role_witness:
  "custom (effective_cut example_system_cut) ''system_prompt'' = Some ''Be brief.''
   \<and> select_context (effective_cut example_system_cut) = Inr ''Transcribe.''
   \<and> supervisions (effective_cut example_system_cut) \<noteq> []
   \<and> gemma1_turns example_system_cut =
        Inr [\<lparr>role = ''system_and_user'',
               slots = [(''system'', ''Be brief.''), (''message'', ''Transcribe.'')]\<rparr>,
             \<lparr>role = ''assistant'', slots = [(''message'', ''hello'')]\<rparr>]
   \<and> TEMPLATE ''system_and_user'' = None"
proof -
  have a: "custom (effective_cut example_system_cut) ''system_prompt'' = Some ''Be brief.''"
    by (simp add: example_system_cut_def)
  have b: "select_context (effective_cut example_system_cut) = Inr ''Transcribe.''"
    by (simp add: example_system_cut_def select_context_def has_custom_def getattr_def)
  have c: "supervisions (effective_cut example_system_cut) \<noteq> []"
    by (simp add: example_system_cut_def)
  have d: "gemma1_turns example_system_cut =
        Inr [\<lparr>role = ''system_and_user'',
               slots = [(''system'', ''Be brief.''), (''message'', ''Transcribe.'')]\<rparr>,
             \<lparr>role = ''assistant'', slots = [(''message'', ''hello'')]\<rparr>]"
    by (simp add: example_system_cut_def gemma1_turns_def first_turn_def select_context_def
        has_custom_def getattr_def py_index_def)
  from system_and_user_role_not_in_TEMPLATE [OF a b c]
  have "TEMPLATE ''system_and_user'' = None"
    by (simp add: domIff)
  with a b c d show ?thesis
    by simp
qed

lemma select_context_cases:
  "(custom c ''context'' = Some v \<longrightarrow> select_context c = Inr v)
   \<and> (custom c ''context'' = None \<and> custom c ''question'' = Some v
        \<longrightarrow> select_context c = Inr v)
   \<and> (custom c ''context'' = None \<and> custom c ''question'' = None
        \<longrightarrow> select_context c = getattr c ''default_context'')"
  by (simp add: select_context_def has_custom_def getattr_def)

lemma first_turn_message:
  assumes "select_context c = Inr ctx"
  shows "\<exists>t. first_turn c = Inr t \<and> map_of (slots t) ''message'' = Some ctx"
proof (cases "custom c ''system_prompt''")
  case None
  with assms show ?thesis
    by (simp add: first_turn_def has_custom_def)
next
  case (Some sp)
  with assms show ?thesis
    by (simp add: first_turn_def has_custom_def getattr_def)
qed

lemma render_user_turn:
  "render_turn \<lparr>role = ''user'', slots = [(''message'', m)]\<rparr> =
     Some (''<start_of_turn>user'' @ NL @ m @ ''<end_of_turn>'' @ NL
           @ ''<start_of_turn>model'' @ NL)"
  by (simp add: render_turn_def TEMPLATE_def TEMPLATE_items_def OUTPUT_ROLE_def
      GEMMA_BOS_def GEMMA_END_OF_TURN_def NL_def py_replace_def mangled_def)

lemma render_assistant_turn:
  "render_turn \<lparr>role = ''assistant'', slots = [(''message'', m)]\<rparr> =
     Some (m @ ''<end_of_turn>'' @ NL)"
  by (simp add: render_turn_def TEMPLATE_def TEMPLATE_items_def OUTPUT_ROLE_def
      GEMMA_BOS_def GEMMA_END_OF_TURN_def NL_def py_replace_def mangled_def)

lemma gemma1_turns_shape:
  assumes "select_context (effective_cut ct) = Inr ctx"
    and "supervisions (effective_cut ct) = s # ss"
  shows "\<exists>t. gemma1_turns ct =
            Inr (t # (case text_of s of
                        None \<Rightarrow> []
                      | Some a \<Rightarrow> [\<lparr>role = ''assistant'', slots = [(''message'', a)]\<rparr>]))
          \<and> map_of (slots t) ''message'' = Some ctx
          \<and> (custom (effective_cut ct) ''system_prompt'' = None
               \<longrightarrow> t = \<lparr>role = ''user'', slots = [(''message'', ctx)]\<rparr>)"
proof -
  obtain t where t: "first_turn (effective_cut ct) = Inr t"
      "map_of (slots t) ''message'' = Some ctx"
    using first_turn_message [OF assms(1)] by blast
  have u: "custom (effective_cut ct) ''system_prompt'' = None
      \<longrightarrow> t = \<lparr>role = ''user'', slots = [(''message'', ctx)]\<rparr>"
    using t(1) assms(1) by (auto simp: first_turn_def has_custom_def)
  have "gemma1_turns ct =
      Inr (t # (case text_of s of
                  None \<Rightarrow> []
                | Some a \<Rightarrow> [\<lparr>role = ''assistant'', slots = [(''message'', a)]\<rparr>]))"
    using t(1) assms(2)
    by (simp add: gemma1_turns_def Let_def py_index_def split: option.split)
  with t(2) u show ?thesis
    by (intro exI [of _ t] conjI)
qed

text \<open>
  C7. A user turn is rendered as \<open>"<start_of_turn>user\n" + message +
  "<end_of_turn>\n<start_of_turn>model\n"\<close> and an assistant turn as \<open>message +
  "<end_of_turn>\n"\<close>, and \<open>INSERT_BOS\<close> and \<open>INSERT_EOS\<close> are both set. For every cut,
  \<open>gemma1\<close> takes as the message the custom field \<open>context\<close> if the cut has it, else
  the custom field \<open>question\<close> if it has that, else its \<open>default_context\<close>; when that
  message can be read and the cut has a first supervision \<open>s\<close>, the dialog is the turn
  with this message (the \<open>user\<close> turn with this one slot when the cut has no
  \<open>system_prompt\<close>) followed by an assistant turn with the text of \<open>s\<close> exactly when
  that text is not None.
\<close>

theorem gemma_prompt_format:
  "render_turn \<lparr>role = ''user'', slots = [(''message'', m)]\<rparr> =
     Some (''<start_of_turn>user'' @ NL @ m @ ''<end_of_turn>'' @ NL
           @ ''<start_of_turn>model'' @ NL)
   \<and> render_turn \<lparr>role = ''assistant'', slots = [(''message'', m)]\<rparr> =
     Some (m @ ''<end_of_turn>'' @ NL)
   \<and> INSERT_BOS \<and> INSERT_EOS
   \<and> (custom c ''context'' = Some v \<longrightarrow> select_context c = Inr v)
   \<and> (custom c ''context'' = None \<and> custom c ''question'' = Some v
        \<longrightarrow> select_context c = Inr v)
   \<and> (custom c ''context'' = None \<and> custom c ''question'' = None
        \<longrightarrow> select_context c = getattr c ''default_context'')
   \<and> (select_context (effective_cut ct) = Inr ctx \<and> supervisions (effective_cut ct) = s # ss
        \<longrightarrow> (\<exists>t. gemma1_turns ct =
                  Inr (t # (case text_of s of
                              None \<Rightarrow> []
                            | Some a \<Rightarrow> [\<lparr>role = ''assistant'', slots = [(''message'', a)]\<rparr>]))
                \<and> map_of (slots t) ''message'' = Some ctx
                \<and> (custom (effective_cut ct) ''system_prompt'' = None
                     \<longrightarrow> t = \<lparr>role = ''user'', slots = [(''message'', ctx)]\<rparr>)))"
proof -
  have sel: "(custom c ''context'' = Some v \<longrightarrow> select_context c = Inr v)
   \<and> (custom c ''context'' = None \<and> custom c ''question'' = Some v
        \<longrightarrow> select_context c = Inr v)
   \<and> (custom c ''context'' = None \<and> custom c ''question'' = None
        \<longrightarrow> select_context c = getattr c ''default_context'')"
    by (rule select_context_cases)
  have ins: "INSERT_BOS \<and> INSERT_EOS"
    by (simp add: INSERT_BOS_def INSERT_EOS_def)
  have turns: "select_context (effective_cut ct) = Inr ctx
        \<and> supervisions (effective_cut ct) = s # ss
        \<longrightarrow> (\<exists>t. gemma1_turns ct =
                  Inr (t # (case text_of s of
                              None \<Rightarrow> []
                            | Some a \<Rightarrow> [\<lparr>role = ''assistant'', slots = [(''message'', a)]\<rparr>]))
                \<and> map_of (slots t) ''message'' = Some ctx
                \<and> (custom (effective_cut ct) ''system_prompt'' = None
                     \<longrightarrow> t = \<lparr>role = ''user'', slots = [(''message'', ctx)]\<rparr>))"
    using gemma1_turns_shape [of ct ctx s ss] by (intro impI) (elim conjE)
  show ?thesis
    by (intro conjI render_user_turn render_assistant_turn
        conjunct1 [OF ins] conjunct2 [OF ins]
        conjunct1 [OF sel] conjunct1 [OF conjunct2 [OF sel]] conjunct2 [OF conjunct2 [OF sel]]
        turns)
qed

theorem gemma_prompt_format_witness:
  "custom (effective_cut example_question_cut) ''context'' = None
   \<and> custom (effective_cut example_question_cut) ''question'' = Some ''What is said?''
   \<and> custom (effective_cut example_question_cut) ''system_prompt'' = None
   \<and> select_context (effective_cut example_question_cut) = Inr ''What is said?''
   \<and> supervisions (effective_cut example_question_cut)
        = [\<lparr>text_of = Some ''nothing''\<rparr>, \<lparr>text_of = None\<rparr>]
   \<and> gemma1_turns example_question_cut =
        Inr [\<lparr>role = ''user'', slots = [(''message'', ''What is said?'')]\<rparr>,
             \<lparr>role = ''assistant'', slots = [(''message'', ''nothing'')]\<rparr>]
   \<and> render_turn \<lparr>role = ''user'', slots = [(''message'', ''What is said?'')]\<rparr> =
        Some (''<start_of_turn>user'' @ NL @ ''What is said?'' @ ''<end_of_turn>'' @ NL
              @ ''<start_of_turn>model'' @ NL)"
proof -
  let ?c = "effective_cut example_question_cut"
  have a: "custom ?c ''context'' = None" "custom ?c ''question'' = Some ''What is said?''"
      "custom ?c ''system_prompt'' = None"
    by (simp_all add: example_question_cut_def)
  have b: "supervisions ?c = [\<lparr>text_of = Some ''nothing''\<rparr>, \<lparr>text_of = None\<rparr>]"
    by (simp add: example_question_cut_def)
  note fmt = gemma_prompt_format [of "''What is said?''" ?c "''What is said?''"
      example_question_cut "''What is said?''" "\<lparr>text_of = Some ''nothing''\<rparr>"
      "[\<lparr>text_of = None\<rparr>]"]
  have r: "render_turn \<lparr>role = ''user'', slots = [(''message'', ''What is said?'')]\<rparr> =
        Some (''<start_of_turn>user'' @ NL @ ''What is said?'' @ ''<end_of_turn>'' @ NL
              @ ''<start_of_turn>model'' @ NL)"
    using fmt by (elim conjE)
  have sel: "select_context ?c = Inr ''What is said?''"
    using fmt a(1,2) by (elim conjE) (erule mp, intro conjI)
  obtain t where t: "gemma1_turns example_question_cut =
        Inr (t # (case text_of \<lparr>text_of = Some ''nothing''\<rparr> of
                    None \<Rightarrow> []
                  | Some a \<Rightarrow> [\<lparr>role = ''assistant'', slots = [(''message'', a)]\<rparr>]))"
      "custom ?c ''system_prompt'' = None
         \<longrightarrow> t = \<lparr>role = ''user'', slots = [(''message'', ''What is said?'')]\<rparr>"
    using fmt sel b by (elim conjE) (erule impE, intro conjI, assumption+, elim exE conjE)
  have "gemma1_turns example_question_cut =
        Inr [\<lparr>role = ''user'', slots = [(''message'', ''What is said?'')]\<rparr>,
             \<lparr>role = ''assistant'', slots = [(''message'', ''nothing'')]\<rparr>]"
    using t a(3) by simp
  with a b sel r show ?thesis
    by (intro conjI)
qed

subsection \<open>Speech-to-text LLM drivers\<close>

lemma run_all_return: "\<forall>c \<in> set cs. returns c \<Longrightarrow> run returns cs = (cs, True)"
  by (induction cs) simp_all

lemma run_calls_subset: "set (fst (run returns cs)) \<subseteq> set cs"
  by (induction cs) auto

lemma run_completed: "snd (run returns cs) \<Longrightarrow> fst (run returns cs) = cs"
  by (induction cs) (auto split: if_splits)

lemma run_append_returned:
  "\<forall>c \<in> set xs. returns c \<Longrightarrow>
     run returns (xs @ ys) = (xs @ fst (run returns ys), snd (run returns ys))"
  by (induction xs) simp_all

lemma pdb_not_in_build_steps: "Call_pdb_set_trace \<notin> set (build_steps peft)"
  by (simp add: build_steps_def)

text \<open>
  C8. In every world, the validation driver calls \<open>pdb.set_trace()\<close> directly after
  \<open>trainer.validate\<close> whenever that call is reached and returns, and it returns the
  log directory only after the debugger call: the calls of a run that returns end with
  \<open>trainer.validate\<close>, \<open>pdb.set_trace\<close>. The train and the generate driver never call
  the debugger.
\<close>

theorem validate_always_enters_pdb:
  "((\<forall>c \<in> set (build_steps peft @ [Call_setup, Call_trainer_validate]). returns c)
      \<longrightarrow> fst (speetch_to_text_llm_validate returns peft log_dir) =
            build_steps peft @ [Call_setup, Call_trainer_validate, Call_pdb_set_trace])
   \<and> (\<forall>d. snd (speetch_to_text_llm_validate returns peft log_dir) = Inr d
      \<longrightarrow> d = log_dir
          \<and> fst (speetch_to_text_llm_validate returns peft log_dir) =
              build_steps peft @ [Call_setup, Call_trainer_validate, Call_pdb_set_trace])
   \<and> Call_pdb_set_trace \<notin> set (fst (speetch_to_text_llm_train returns peft log_dir))
   \<and> Call_pdb_set_trace \<notin> set (fst (speetch_to_text_llm_generate returns peft log_dir))"
proof (intro conjI impI allI)
  assume ok: "\<forall>c \<in> set (build_steps peft @ [Call_setup, Call_trainer_validate]). returns c"
  have "run returns ((build_steps peft @ [Call_setup, Call_trainer_validate])
            @ [Call_pdb_set_trace])
        = ((build_steps peft @ [Call_setup, Call_trainer_validate])
            @ fst (run returns [Call_pdb_set_trace]), snd (run returns [Call_pdb_set_trace]))"
    by (rule run_append_returned [OF ok])
  then show "fst (speetch_to_text_llm_validate returns peft log_dir) =
            build_steps peft @ [Call_setup, Call_trainer_validate, Call_pdb_set_trace]"
    by (simp add: speetch_to_text_llm_validate_def driver_def validate_steps_def)
next
  fix d
  assume r: "snd (speetch_to_text_llm_validate returns peft log_dir) = Inr d"
  then have fin: "snd (run returns (validate_steps peft))"
    by (simp add: speetch_to_text_llm_validate_def driver_def split: if_splits)
  from r show "d = log_dir"
    by (simp add: speetch_to_text_llm_validate_def driver_def split: if_splits)
  from run_completed [OF fin]
  show "fst (speetch_to_text_llm_validate returns peft log_dir) =
            build_steps peft @ [Call_setup, Call_trainer_validate, Call_pdb_set_trace]"
    by (simp add: speetch_to_text_llm_validate_def driver_def validate_steps_def)
next
  have "Call_pdb_set_trace \<notin> set (train_steps peft)"
    by (simp add: train_steps_def pdb_not_in_build_steps)
  then show "Call_pdb_set_trace \<notin> set (fst (speetch_to_text_llm_train returns peft log_dir))"
    using run_calls_subset [of returns "train_steps peft"]
    by (auto simp: speetch_to_text_llm_train_def driver_def)
next
  have "Call_pdb_set_trace \<notin> set (generate_steps peft)"
    by (simp add: generate_steps_def pdb_not_in_build_steps)
  then show "Call_pdb_set_trace \<notin> set (fst (speetch_to_text_llm_generate returns peft log_dir))"
    using run_calls_subset [of returns "generate_steps peft"]
    by (auto simp: speetch_to_text_llm_generate_def driver_def)
qed

theorem validate_always_enters_pdb_witness:
  "speetch_to_text_llm_validate (\<lambda>c. True) False ''/results/run0'' =
     (build_steps False @ [Call_setup, Call_trainer_validate, Call_pdb_set_trace],
      Inr ''/results/run0'')
   \<and> Call_pdb_set_trace \<notin> set (fst (speetch_to_text_llm_train (\<lambda>c. True) False ''/results/run0''))
   \<and> Call_pdb_set_trace \<notin> set (fst (speetch_to_text_llm_generate (\<lambda>c. True) False ''/results/run0''))"
proof -
  note v = validate_always_enters_pdb [of False "\<lambda>c. True" "''/results/run0''"]
  have ok: "\<forall>c \<in> set (build_steps False @ [Call_setup, Call_trainer_validate]). (\<lambda>c. True) c"
    by simp
  have t: "fst (speetch_to_text_llm_validate (\<lambda>c. True) False ''/results/run0'') =
      build_steps False @ [Call_setup, Call_trainer_validate, Call_pdb_set_trace]"
    using v ok by (elim conjE) (erule mp)
  have r: "snd (speetch_to_text_llm_validate (\<lambda>c. True) False ''/results/run0'') =
      Inr ''/results/run0''"
    by (simp add: speetch_to_text_llm_validate_def driver_def run_all_return)
  have "speetch_to_text_llm_validate (\<lambda>c. True) False ''/results/run0'' =
     (build_steps False @ [Call_setup, Call_trainer_validate, Call_pdb_set_trace],
      Inr ''/results/run0'')"
    using t r by (simp add: prod_eq_iff)
  with v show ?thesis
    by (elim conjE) (intro conjI)
qed

subsection \<open>Building the datasets\<close>

lemma firsts_nonempty: "\<forall>x \<in> set per. x \<noteq> [] \<Longrightarrow> firsts per = Inr (map hd per)"
proof (induction per)
  case Nil
  show ?case by simp
next
  case (Cons x per)
  then obtain v vs where "x = v # vs"
    by (cases x) auto
  with Cons show ?case by simp
qed

lemma make_datasets_train:
  "\<forall>x \<in> set per. x \<noteq> [] \<Longrightarrow>
     make_datasets d (zip fs (map (map Some) per))
       = Inr (map (\<lambda>(f, x). make_dataset d f (Some (hd x))) (zip fs per))"
proof (induction per arbitrary: fs)
  case Nil
  show ?case by simp
next
  case (Cons x per)
  then obtain v vs where x: "x = v # vs"
    by (cases x) auto
  show ?case
  proof (cases fs)
    case Nil
    then show ?thesis by simp
  next
    case (Cons f fs')
    with Cons.IH [of fs'] Cons.prems x show ?thesis by simp
  qed
qed

lemma make_datasets_eval:
  "make_datasets d (zip fs (replicate (length fs) [None]))
     = Inr (map (\<lambda>f. make_dataset d f None) fs)"
  by (induction fs) simp_all

lemma build_dataset_bad_file_names:
  "\<not> is_ListConfig (file_names d) \<Longrightarrow> raises_ValueError (build_dataset g self d is_train)"
  by (cases "file_names d") (simp_all add: build_dataset_def)

lemma build_dataset_bad_probabilities:
  "\<not> is_ListConfig (concat_sampling_probabilities d) \<Longrightarrow>
     raises_ValueError (build_dataset g self d True)"
  by (cases "file_names d"; cases "concat_sampling_probabilities d")
    (simp_all add: build_dataset_def)

lemma build_dataset_bad_length:
  "concat_sampling_probabilities d = ListConfig ws \<Longrightarrow> file_names d = ListConfig fs \<Longrightarrow>
     length ws \<noteq> length fs \<Longrightarrow> raises_ValueError (build_dataset g self d True)"
  by (simp add: build_dataset_def)

lemma build_dataset_bad_max_steps:
  assumes "max_steps self = None \<or> (\<exists>m. max_steps self = Some m \<and> m \<le> 0)"
  shows "raises_ValueError (build_dataset g self d True)"
proof (cases "file_names d")
  case (ListConfig fs)
  show ?thesis
  proof (cases "concat_sampling_probabilities d")
    case ws: (ListConfig ws)
    show ?thesis
    proof (cases "length ws = length fs")
      case True
      with assms ListConfig ws show ?thesis
        by (auto simp: build_dataset_def Let_def)
    next
      case False
      with ListConfig ws show ?thesis
        by (simp add: build_dataset_def)
    qed
  qed (simp_all add: build_dataset_def ListConfig)
qed (simp_all add: build_dataset_def)

lemma build_dataset_train:
  assumes "file_names d = ListConfig fs" and "concat_sampling_probabilities d = ListConfig ws"
    and "length ws = length fs" and "max_steps self = Some m" and "0 < m"
    and "g (make_data_prefix (zip ws fs)) [m * global_batch_size d] = Inr (ps, wts, per)"
    and "\<forall>x \<in> set per. x \<noteq> []"
  shows "build_dataset g self d True =
     Inr (BlendableDataset
            \<lparr>bl_datasets = map (\<lambda>(f, x). make_dataset (cap_max_seq_length self d) f (Some (hd x)))
                             (zip fs per),
             bl_weights = ListConfig ws,
             bl_size = sum_list (map hd per)\<rparr>,
          cap_max_seq_length self d)"
proof -
  have w: "concat_sampling_probabilities (cap_max_seq_length self d) = ListConfig ws"
    using assms(2) by (simp add: cap_max_seq_length_def)
  show ?thesis
    using assms w firsts_nonempty [OF assms(7)]
      make_datasets_train [OF assms(7), of "cap_max_seq_length self d" fs]
    by (simp add: build_dataset_def Let_def)
qed

lemma build_dataset_eval:
  assumes "file_names d = ListConfig fs"
  shows "build_dataset g self d False =
     Inr (DatasetList (map (\<lambda>f. make_dataset (cap_max_seq_length self d) f None) fs),
          cap_max_seq_length self d)"
  using assms make_datasets_eval [of "cap_max_seq_length self d" fs]
  by (simp add: build_dataset_def Let_def)

text \<open>
  C6 (amended). \<open>_build_dataset\<close> raises ValueError whenever \<open>data_cfg.file_names\<close> is
  not a ListConfig. With \<open>is_train\<close> true it raises ValueError whenever
  \<open>concat_sampling_probabilities\<close> is None or not a ListConfig, whenever its length
  differs from that of \<open>file_names\<close>, and whenever \<open>trainer.max_steps\<close> is None or not
  positive. When all checks pass with \<open>is_train\<close> true, it asks
  \<open>get_datasets_weights_and_num_samples\<close> for \<open>max_steps * global_batch_size\<close> samples,
  and if the helper answers with a nonempty list of counts for each dataset, the result
  is one BlendableDataset over the per-file datasets, with the sampling probabilities as
  weights, whose size is the sum of the first counts of the helper's answer. With
  \<open>is_train\<close> false and a ListConfig of file names the result is the list of the
  per-file datasets.
\<close>

theorem build_dataset_checks:
  "(\<not> is_ListConfig (file_names d) \<longrightarrow> raises_ValueError (build_dataset g self d is_train))
   \<and> (\<not> is_ListConfig (concat_sampling_probabilities d)
        \<longrightarrow> raises_ValueError (build_dataset g self d True))
   \<and> (concat_sampling_probabilities d = ListConfig ws \<and> file_names d = ListConfig fs
        \<and> length ws \<noteq> length fs
        \<longrightarrow> raises_ValueError (build_dataset g self d True))
   \<and> (max_steps self = None \<or> (\<exists>m. max_steps self = Some m \<and> m \<le> 0)
        \<longrightarrow> raises_ValueError (build_dataset g self d True))
   \<and> (file_names d = ListConfig fs \<and> concat_sampling_probabilities d = ListConfig ws
        \<and> length ws = length fs \<and> max_steps self = Some m \<and> 0 < m
        \<and> g (make_data_prefix (zip ws fs)) [m * global_batch_size d] = Inr (ps, wts, per)
        \<and> (\<forall>x \<in> set per. x \<noteq> [])
        \<longrightarrow> build_dataset g self d True =
              Inr (BlendableDataset
                     \<lparr>bl_datasets =
                        map (\<lambda>(f, x). make_dataset (cap_max_seq_length self d) f (Some (hd x)))
                          (zip fs per),
                      bl_weights = ListConfig ws,
                      bl_size = sum_list (map hd per)\<rparr>,
                   cap_max_seq_length self d))
   \<and> (file_names d = ListConfig fs
        \<longrightarrow> build_dataset g self d False =
              Inr (DatasetList (map (\<lambda>f. make_dataset (cap_max_seq_length self d) f None) fs),
                   cap_max_seq_length self d))"
proof (intro conjI impI)
  assume "\<not> is_ListConfig (file_names d)"
  then show "raises_ValueError (build_dataset g self d is_train)"
    by (rule build_dataset_bad_file_names)
next
  assume "\<not> is_ListConfig (concat_sampling_probabilities d)"
  then show "raises_ValueError (build_dataset g self d True)"
    by (rule build_dataset_bad_probabilities)
next
  assume "concat_sampling_probabilities d = ListConfig ws \<and> file_names d = ListConfig fs
        \<and> length ws \<noteq> length fs"
  then show "raises_ValueError (build_dataset g self d True)"
    by (elim conjE) (rule build_dataset_bad_length)
next
  assume "max_steps self = None \<or> (\<exists>m. max_steps self = Some m \<and> m \<le> 0)"
  then show "raises_ValueError (build_dataset g self d True)"
    by (rule build_dataset_bad_max_steps)
next
  assume "file_names d = ListConfig fs \<and> concat_sampling_probabilities d = ListConfig ws
        \<and> length ws = length fs \<and> max_steps self = Some m \<and> 0 < m
        \<and> g (make_data_prefix (zip ws fs)) [m * global_batch_size d] = Inr (ps, wts, per)
        \<and> (\<forall>x \<in> set per. x \<noteq> [])"
  then show "build_dataset g self d True =
              Inr (BlendableDataset
                     \<lparr>bl_datasets =
                        map (\<lambda>(f, x). make_dataset (cap_max_seq_length self d) f (Some (hd x)))
                          (zip fs per),
                      bl_weights = ListConfig ws,
                      bl_size = sum_list (map hd per)\<rparr>,
                   cap_max_seq_length self d)"
    by (elim conjE) (rule build_dataset_train)
next
  assume "file_names d = ListConfig fs"
  then show "build_dataset g self d False =
              Inr (DatasetList (map (\<lambda>f. make_dataset (cap_max_seq_length self d) f None) fs),
                   cap_max_seq_length self d)"
    by (rule build_dataset_eval)
qed

theorem build_dataset_checks_witness:
  "build_dataset example_helper example_embedding_model example_data_cfg True =
     Inr (BlendableDataset
            \<lparr>bl_datasets =
               [make_dataset example_data_cfg ''a.jsonl'' (Some 13),
                make_dataset example_data_cfg ''b.jsonl'' (Some 29)],
             bl_weights = ListConfig [0.3, 0.7],
             bl_size = 42\<rparr>,
          example_data_cfg)
   \<and> 10 * global_batch_size example_data_cfg = 40
   \<and> raises_ValueError
        (build_dataset example_helper (example_embedding_model\<lparr>max_steps := Some 0\<rparr>)
           example_data_cfg True)
   \<and> raises_ValueError
        (build_dataset example_helper example_embedding_model
           (example_data_cfg\<lparr>file_names := CfgOther\<rparr>) False)"
proof -
  let ?d = example_data_cfg
  let ?fs = "[''a.jsonl'', ''b.jsonl'']"
  let ?ws = "[0.3, 0.7 :: real]"
  let ?per = "[[13], [29 :: int]]"
  have cap: "cap_max_seq_length example_embedding_model ?d = ?d"
    by (simp add: cap_max_seq_length_def example_embedding_model_def)
  have h: "file_names ?d = ListConfig ?fs \<and> concat_sampling_probabilities ?d = ListConfig ?ws
        \<and> length ?ws = length ?fs \<and> max_steps example_embedding_model = Some 10 \<and> (0::int) < 10
        \<and> example_helper (make_data_prefix (zip ?ws ?fs)) [10 * global_batch_size ?d]
            = Inr (?fs, ?ws, ?per)
        \<and> (\<forall>x \<in> set ?per. x \<noteq> [])"
    by (simp add: example_data_cfg_def example_embedding_model_def example_helper_def)
  note t = build_dataset_checks [of ?d example_helper example_embedding_model True ?ws ?fs 10
      ?fs ?ws ?per]
  have a: "build_dataset example_helper example_embedding_model ?d True =
     Inr (BlendableDataset
            \<lparr>bl_datasets =
               map (\<lambda>(f, x). make_dataset (cap_max_seq_length example_embedding_model ?d) f
                                (Some (hd x))) (zip ?fs ?per),
             bl_weights = ListConfig ?ws,
             bl_size = sum_list (map hd ?per)\<rparr>,
          cap_max_seq_length example_embedding_model ?d)"
    by (rule mp [OF t [THEN conjunct2, THEN conjunct2, THEN conjunct2, THEN conjunct2,
            THEN conjunct1] h])
  have b: "raises_ValueError
        (build_dataset example_helper (example_embedding_model\<lparr>max_steps := Some 0\<rparr>) ?d True)"
    using build_dataset_checks [of ?d example_helper
        "example_embedding_model\<lparr>max_steps := Some 0\<rparr>" True ?ws ?fs 0 ?fs ?ws ?per]
    by simp
  have c: "raises_ValueError
        (build_dataset example_helper example_embedding_model (?d\<lparr>file_names := CfgOther\<rparr>) False)"
    using build_dataset_checks [of "?d\<lparr>file_names := CfgOther\<rparr>" example_helper
        example_embedding_model False ?ws ?fs 10 ?fs ?ws ?per]
    by simp
  have g: "10 * global_batch_size ?d = 40"
    by (simp add: example_data_cfg_def)
  from a b c g show ?thesis
    unfolding cap by simp
qed

text \<open>
  The size of the BlendableDataset is not the requested sample count: on the example,
  the request is \<open>10 * 4 = 40\<close> samples, the helper answers with 13 and 29, and the
  size passed on lines 122-124 is their sum, 42.
\<close>

theorem build_dataset_size_counterexample:
  "build_dataset example_helper example_embedding_model example_data_cfg True =
     Inr (BlendableDataset
            \<lparr>bl_datasets =
               [make_dataset example_data_cfg ''a.jsonl'' (Some 13),
                make_dataset example_data_cfg ''b.jsonl'' (Some 29)],
             bl_weights = ListConfig [0.3, 0.7],
             bl_size = 42\<rparr>,
          example_data_cfg)
   \<and> max_steps example_embedding_model = Some 10
   \<and> global_batch_size example_data_cfg = 4
   \<and> (42::int) \<noteq> 10 * 4"
proof -
  let ?d = example_data_cfg
  have cap: "cap_max_seq_length example_embedding_model ?d = ?d"
    by (simp add: cap_max_seq_length_def example_embedding_model_def)
  have fs: "file_names ?d = ListConfig [''a.jsonl'', ''b.jsonl'']"
    and ws: "concat_sampling_probabilities ?d = ListConfig [0.3, 0.7]"
    and gbs: "global_batch_size ?d = 4"
    by (simp_all add: example_data_cfg_def)
  have ms: "max_steps example_embedding_model = Some 10"
    by (simp add: example_embedding_model_def)
  have g: "example_helper (make_data_prefix (zip [0.3, 0.7] [''a.jsonl'', ''b.jsonl'']))
             [10 * global_batch_size ?d]
           = Inr ([''a.jsonl'', ''b.jsonl''], [0.3, 0.7], [[13], [29]])"
    by (simp add: example_helper_def)
  have ne: "\<forall>x \<in> set [[13], [29 :: int]]. x \<noteq> []"
    by simp
  have "build_dataset example_helper example_embedding_model ?d True =
     Inr (BlendableDataset
            \<lparr>bl_datasets =
               map (\<lambda>(f, x). make_dataset (cap_max_seq_length example_embedding_model ?d) f
                                (Some (hd x))) (zip [''a.jsonl'', ''b.jsonl''] [[13], [29]]),
             bl_weights = ListConfig [0.3, 0.7],
             bl_size = sum_list (map hd [[13], [29]])\<rparr>,
          cap_max_seq_length example_embedding_model ?d)"
    by (rule build_dataset_train [where g = example_helper and m = 10
          and ps = "[''a.jsonl'', ''b.jsonl'']" and wts = "[0.3, 0.7]", OF fs ws _ ms _ g ne])
      simp_all
  then show ?thesis
    unfolding cap using ms gbs by simp
qed

subsection \<open>The contrastive loss\<close>

lemma collect_all:
  "\<forall>x \<in> set xs. f x = Inr (g x) \<Longrightarrow> collect f xs = Inr (map g xs)"
  by (induction xs) simp_all

lemma shape1_planes:
  assumes "\<forall>plane \<in> set t. length plane = b" and "t \<noteq> []"
  shows "shape1 t = b"
  using assms by (cases t) (simp_all add: shape1_def)

lemma eos_rows_selected:
  assumes planes: "\<forall>plane \<in> set t. length plane = b"
    and len: "length loss_mask = b"
    and range: "\<forall>m \<in> set loss_mask. 0 \<le> m \<and> m < int (length t)"
  shows "eos_rows t loss_mask = Inr (map (eos_row t loss_mask) [0 ..< b])"
proof (cases "b = 0")
  case True
  with len have "loss_mask = []" by simp
  moreover have "shape1 t = 0"
  proof (cases t)
    case Nil
    then show ?thesis by (simp add: shape1_def)
  next
    case (Cons p ps)
    with planes True show ?thesis by (simp add: shape1_def)
  qed
  ultimately show ?thesis
    using True by (simp add: eos_rows_def broadcast_pairs_def)
next
  case False
  with len obtain m where "m \<in> set loss_mask"
    by (cases loss_mask) auto
  with range have "t \<noteq> []" by auto
  with planes have sh: "shape1 t = b"
    by (rule shape1_planes)
  have each: "\<forall>p \<in> set (zip loss_mask [0 ..< b]).
      index_row t p = Inr (t ! nat (fst p) ! snd p)"
  proof
    fix p
    assume p: "p \<in> set (zip loss_mask [0 ..< b])"
    obtain m k where mk: "p = (m, k)"
      by (cases p)
    with p have "m \<in> set loss_mask" and "k \<in> set [0 ..< b]"
      by (auto dest: set_zip_leftD set_zip_rightD)
    with mk have "fst p \<in> set loss_mask" and "snd p \<in> set [0 ..< b]"
      by simp_all
    with range sh show "index_row t p = Inr (t ! nat (fst p) ! snd p)"
      by (auto simp: index_row_def Let_def)
  qed
  have "map (\<lambda>p. t ! nat (fst p) ! snd p) (zip loss_mask [0 ..< b])
      = map (eos_row t loss_mask) [0 ..< b]"
    using len by (intro nth_equalityI) (simp_all add: eos_row_def)
  with collect_all [OF each] sh len show ?thesis
    by (simp add: eos_rows_def broadcast_pairs_def)
qed

lemma slice3_map:
  assumes "k \<le> 2"
  shows "slice3 k (map f [0 ..< 3 * n]) = map (\<lambda>i. f (3 * i + k)) [0 ..< n]"
proof -
  have "k = 0 \<or> k = 1 \<or> k = 2"
    using assms by arith
  then have c: "(3 * n + 2 - k) div 3 = n"
    by (elim disjE) simp_all
  then have c': "(Suc (Suc (3 * n)) - k) div 3 = n"
    by simp
  show ?thesis
  proof (intro nth_equalityI)
    show "length (slice3 k (map f [0 ..< 3 * n])) = length (map (\<lambda>i. f (3 * i + k)) [0 ..< n])"
      by (simp add: slice3_def c c')
  next
    fix i
    assume "i < length (slice3 k (map f [0 ..< 3 * n]))"
    then have i: "i < n"
      by (simp add: slice3_def c c')
    then have "k + 3 * i < 3 * n"
      using assms by simp
    with i show "slice3 k (map f [0 ..< 3 * n]) ! i = map (\<lambda>i. f (3 * i + k)) [0 ..< n] ! i"
      by (simp add: slice3_def c c' add.commute)
  qed
qed

lemma rowwise_maps:
  "rowwise f (map a xs) (map b xs) = Inr (map (\<lambda>x. f (a x) (b x)) xs)"
  by (simp add: rowwise_def broadcast_pairs_def zip_map_map zip_same_conv_map)

lemma cat2_maps:
  "cat2 (map a xs) (map b xs) = Inr (map (\<lambda>x. [a x, b x]) xs)"
  by (simp add: cat2_def zip_map_map zip_same_conv_map)

text \<open>
  With a context-parallel size above 1 the loss that is returned is the cross-entropy
  plus the losses of the other ranks of the group.
\<close>

lemma loss_func_context_parallel:
  assumes planes: "\<forall>plane \<in> set output_tensor. length plane = 3 * n"
    and len: "length loss_mask = 3 * n"
    and range: "\<forall>m \<in> set loss_mask. 0 \<le> m \<and> m < int (length output_tensor)"
    and soft: "num_soft_negatives cfg = 0"
    and temp: "temperature cfg \<noteq> 0"
    and cp: "context_parallel_size cfg = Some c" "1 < c"
  shows "loss_func T cfg loss_mask output_tensor =
           Inr (fst (contrastive_loss T (temperature cfg)
                       (selected_examples output_tensor loss_mask n))
                  + sum_list (cp_peer_losses T),
                snd (contrastive_loss T (temperature cfg)
                       (selected_examples output_tensor loss_mask n)))"
proof -
  let ?row = "eos_row output_tensor loss_mask"
  let ?q = "map (\<lambda>i. ?row (3 * i)) [0 ..< n]"
  let ?p = "map (\<lambda>i. ?row (3 * i + 1)) [0 ..< n]"
  let ?d = "map (\<lambda>i. ?row (3 * i + 2)) [0 ..< n]"
  have eos: "eos_rows output_tensor loss_mask = Inr (map ?row [0 ..< 3 * n])"
    using planes len range by (rule eos_rows_selected)
  have q: "slice3 0 (map ?row [0 ..< 3 * n]) = ?q"
    using slice3_map [of 0 ?row n] by simp
  have p: "slice3 1 (map ?row [0 ..< 3 * n]) = ?p"
    using slice3_map [of 1 ?row n] by simp
  have d: "slice3 2 (map ?row [0 ..< 3 * n]) = ?d"
    using slice3_map [of 2 ?row n] by simp
  show ?thesis
    unfolding loss_func_def eos bind_Inr Let_def q p d
    using soft temp cp
    by (simp add: rowwise_maps cat2_maps contrastive_loss_def selected_examples_def o_def)
qed
text \<open>
  C5 (amended). Let the output tensor have shape \<open>[s, 3n, h]\<close> and let \<open>loss_mask\<close> give a
  sequence position for each of the \<open>3n\<close> columns, so that it selects for example \<open>i\<close>
  the rows of the columns \<open>3i\<close>, \<open>3i + 1\<close>, \<open>3i + 2\<close>: query, positive document,
  negative document. With no soft negatives, a nonzero temperature and a
  context-parallel size of at most 1 (or none configured), \<open>loss_func\<close> returns the
  cross-entropy, against class 0, of the rows [positive similarity, negative similarity],
  each a cosine similarity with the query scaled by \<open>1 / temperature\<close>, together with
  the normalized query rows and the normalized positive rows. The selected rows have
  nonzero norm, as the real numbers require.
\<close>

theorem contrastive_loss_single_rank:
  assumes planes: "\<forall>plane \<in> set output_tensor. length plane = 3 * n"
    and len: "length loss_mask = 3 * n"
    and range: "\<forall>m \<in> set loss_mask. 0 \<le> m \<and> m < int (length output_tensor)"
    and soft: "num_soft_negatives cfg = 0"
    and temp: "temperature cfg \<noteq> 0"
    and cp: "context_parallel_size cfg = None \<or> (\<exists>c. context_parallel_size cfg = Some c \<and> c \<le> 1)"
    and norms: "\<forall>(q, p, d) \<in> set (selected_examples output_tensor loss_mask n).
                  torch_norm T q \<noteq> 0 \<and> torch_norm T p \<noteq> 0"
  shows "loss_func T cfg loss_mask output_tensor =
           Inr (contrastive_loss T (temperature cfg) (selected_examples output_tensor loss_mask n))"
proof -
  let ?row = "eos_row output_tensor loss_mask"
  let ?q = "map (\<lambda>i. ?row (3 * i)) [0 ..< n]"
  let ?p = "map (\<lambda>i. ?row (3 * i + 1)) [0 ..< n]"
  let ?d = "map (\<lambda>i. ?row (3 * i + 2)) [0 ..< n]"
  have eos: "eos_rows output_tensor loss_mask = Inr (map ?row [0 ..< 3 * n])"
    using planes len range by (rule eos_rows_selected)
  have q: "slice3 0 (map ?row [0 ..< 3 * n]) = ?q"
    using slice3_map [of 0 ?row n] by simp
  have p: "slice3 1 (map ?row [0 ..< 3 * n]) = ?p"
    using slice3_map [of 1 ?row n] by simp
  have d: "slice3 2 (map ?row [0 ..< 3 * n]) = ?d"
    using slice3_map [of 2 ?row n] by simp
  have cpv: "\<not> (case context_parallel_size cfg of None \<Rightarrow> 1 | Some c \<Rightarrow> c) > 1"
    using cp by auto
  show ?thesis
    unfolding loss_func_def eos bind_Inr Let_def q p d
    using soft temp cpv
    by (simp add: rowwise_maps cat2_maps contrastive_loss_def selected_examples_def o_def)
qed


lemma example_selected:
  "selected_examples example_output example_loss_mask 1 = [([1, 0], [3, 4], [0, 1])]"
  by (simp add: selected_examples_def eos_row_def example_output_def example_loss_mask_def)

theorem contrastive_loss_single_rank_witness:
  "selected_examples example_output example_loss_mask 1 = [([1, 0], [3, 4], [0, 1])]
   \<and> loss_func example_torch (example_loss_cfg None) example_loss_mask example_output =
       Inr (contrastive_loss example_torch (1 / 20) [([1, 0], [3, 4], [0, 1])])"
proof -
  have planes: "\<forall>plane \<in> set example_output. length plane = 3 * 1"
    by (simp add: example_output_def)
  have len: "length example_loss_mask = 3 * 1"
    by (simp add: example_loss_mask_def)
  have range: "\<forall>m \<in> set example_loss_mask. 0 \<le> m \<and> m < int (length example_output)"
    by (simp add: example_loss_mask_def example_output_def)
  have soft: "num_soft_negatives (example_loss_cfg None) = 0"
    and temp: "temperature (example_loss_cfg None) \<noteq> 0"
    and cp: "context_parallel_size (example_loss_cfg None) = None
         \<or> (\<exists>c. context_parallel_size (example_loss_cfg None) = Some c \<and> c \<le> 1)"
    by (simp_all add: example_loss_cfg_def)
  have norms: "\<forall>(q, p, d) \<in> set (selected_examples example_output example_loss_mask 1).
                  torch_norm example_torch q \<noteq> 0 \<and> torch_norm example_torch p \<noteq> 0"
    unfolding example_selected by (simp add: example_torch_def dot_def)
  have t: "temperature (example_loss_cfg None) = 1 / 20"
    by (simp add: example_loss_cfg_def)
  from contrastive_loss_single_rank [OF planes len range soft temp cp norms]
  show ?thesis
    unfolding example_selected t by simp
qed

text \<open>
  The claim as it is worded fails with a context-parallel size above 1: the loss that is
  returned is then the sum over the context-parallel group. On the example batch, with
  size 2 and the other rank holding the loss 1, the result is the cross-entropy plus 1.
\<close>

theorem contrastive_loss_counterexample:
  "loss_func example_torch (example_loss_cfg (Some 2)) example_loss_mask example_output =
     Inr (fst (contrastive_loss example_torch (1 / 20) [([1, 0], [3, 4], [0, 1])]) + 1,
          snd (contrastive_loss example_torch (1 / 20) [([1, 0], [3, 4], [0, 1])]))
   \<and> loss_func example_torch (example_loss_cfg (Some 2)) example_loss_mask example_output \<noteq>
     Inr (contrastive_loss example_torch (1 / 20)
            (selected_examples example_output example_loss_mask 1))"
proof -
  have peers: "cp_peer_losses example_torch = [1]"
    by (simp add: example_torch_def)
  have eos: "eos_rows example_output example_loss_mask = Inr [[1, 0], [3, 4], [0, 1]]"
    by (simp add: eos_rows_def broadcast_pairs_def shape1_def index_row_def example_output_def
        example_loss_mask_def upt_rec)
  have sl: "slice3 0 [[1, 0], [3, 4], [0, 1 :: real]] = [[1, 0]]"
      "slice3 1 [[1, 0], [3, 4], [0, 1 :: real]] = [[3, 4]]"
      "slice3 2 [[1, 0], [3, 4], [0, 1 :: real]] = [[0, 1]]"
    by (simp_all add: slice3_def)
  have a: "loss_func example_torch (example_loss_cfg (Some 2)) example_loss_mask example_output =
     Inr (fst (contrastive_loss example_torch (1 / 20) [([1, 0], [3, 4], [0, 1])]) + 1,
          snd (contrastive_loss example_torch (1 / 20) [([1, 0], [3, 4], [0, 1])]))"
    unfolding loss_func_def eos bind_Inr Let_def sl
    by (simp add: rowwise_def broadcast_pairs_def cat2_def contrastive_loss_def peers
        example_loss_cfg_def)
  have "fst (contrastive_loss example_torch (1 / 20) [([1, 0], [3, 4], [0, 1])]) + 1
      \<noteq> fst (contrastive_loss example_torch (1 / 20) [([1, 0], [3, 4], [0, 1])])"
    by simp
  then have "(fst (contrastive_loss example_torch (1 / 20) [([1, 0], [3, 4], [0, 1])]) + 1,
          snd (contrastive_loss example_torch (1 / 20) [([1, 0], [3, 4], [0, 1])]))
      \<noteq> contrastive_loss example_torch (1 / 20) [([1, 0], [3, 4], [0, 1])]"
    by (metis fst_conv)
  with a show ?thesis
    unfolding example_selected by simp
qed

subsection \<open>Gated residual fusion\<close>

text \<open>
  What the source computes, for every layer and input: the outputs of the attention
  branch are scaled by \<open>tanh(gate_attn)\<close> before \<open>cross_attn_bda\<close> adds the residual,
  and the outputs of the MLP branch are scaled by \<open>tanh(gate_attn)\<close> as well before
  \<open>mlp_bda\<close> adds its residual.
\<close>

lemma xattn_forward_gates:
  assumes "cross_attention L (pre_cross_attn_layernorm L h) args = PyTuple outs"
    and "h1 = cross_attn_bda L (gate_tuple (tanh (gate_attn L)) outs) h"
    and "mlp L (pre_mlp_layernorm L h1) = PyTuple outs2"
  shows "xattn_forward L h args =
           Inr (PyTuple [Some (mlp_bda L (gate_tuple (tanh (gate_attn L)) outs2) h1), None])"
    and "xattn_forward_claimed L h args =
           Inr (PyTuple [Some (mlp_bda L (gate_tuple (tanh (gate_ffn L)) outs2) h1), None])"
  using assms by (simp_all add: xattn_forward_def xattn_forward_claimed_def Let_def)

text \<open>
  C1 (the code departs from the claim). On the example layer, with \<open>gate_attn = 0\<close> and
  \<open>gate_ffn = 1\<close>, the forward pass returns the hidden states unchanged: the output of
  the MLP is scaled by \<open>tanh(gate_attn) = 0\<close>. Scaled by \<open>tanh(gate_ffn)\<close>, as the claim
  says, the result is the hidden states times \<open>1 + tanh 1\<close>, which is another tensor.
\<close>

theorem mlp_branch_scaled_by_gate_attn:
  "xattn_forward example_layer example_hidden (0::nat) =
     Inr (PyTuple [Some (Arr [Arr [Arr [Num 1, Num 2]]]), None])
   \<and> xattn_forward_claimed example_layer example_hidden (0::nat) =
     Inr (PyTuple [Some (Arr [Arr [Arr [Num (1 + tanh 1), Num (2 + tanh 1 * 2)]]]), None])
   \<and> xattn_forward example_layer example_hidden (0::nat)
       \<noteq> xattn_forward_claimed example_layer example_hidden (0::nat)"
proof -
  have a: "xattn_forward example_layer example_hidden (0::nat) =
     Inr (PyTuple [Some (Arr [Arr [Arr [Num 1, Num 2]]]), None])"
    by (simp add: xattn_forward_def example_layer_def example_hidden_def gate_tuple_def)
  have b: "xattn_forward_claimed example_layer example_hidden (0::nat) =
     Inr (PyTuple [Some (Arr [Arr [Arr [Num (1 + tanh 1), Num (2 + tanh 1 * 2)]]]), None])"
    by (simp add: xattn_forward_claimed_def example_layer_def example_hidden_def gate_tuple_def)
  have "tanh (1::real) \<noteq> 0"
    by simp
  then have "(1::real) \<noteq> 1 + tanh 1"
    by simp
  with a b show ?thesis
    by simp
qed

subsection \<open>The block: contexts and layer order\<close>

lemma py_and_second [simp]: "py_and a b = b"
  by (simp add: py_and_def truthy_def)

lemma slot_event_is_layer [simp]: "is_layer_event (slot_event sl l_no c)"
  by (cases sl) simp_all

lemma offload_commit_events:
  "\<forall>e \<in> set (fst (offload_commit B l_no h)). is_layer_event e"
  by (simp add: offload_commit_def split: option.split)

lemma layer_step_events:
  "\<forall>e \<in> set (fst (layer_step B kw caches l_no p h)). is_layer_event e"
proof (cases "length (cuda_graphs B) = 0 \<or> \<not> training B")
  case True
  show ?thesis
  proof (cases caches)
    case None
    with True show ?thesis
      by (simp add: layer_step_def)
  next
    case (Some cs)
    show ?thesis
    proof (cases "py_index cs l_no")
      case (Inl e)
      with True Some show ?thesis
        by (simp add: layer_step_def)
    next
      case (Inr c)
      show ?thesis
      proof (cases "bind (call_slot (snd p) h (kw\<lparr>xattn_cache := c\<rparr>)) unpack2")
        case (Inl e)
        with True Some Inr show ?thesis
          by (simp add: layer_step_def)
      next
        case r: (Inr pr)
        obtain a ctx where pr: "pr = (a, ctx)"
          by (cases pr)
        show ?thesis
        proof (cases a)
          case None
          with True Some Inr r pr show ?thesis
            by (simp add: layer_step_def)
        next
          case s: (Some h1)
          obtain h' ctx' where t: "fst p h1 = (h', ctx')"
            by (cases "fst p h1")
          obtain ev h'' where oc: "offload_commit B l_no h' = (ev, h'')"
            by (cases "offload_commit B l_no h'")
          have "\<forall>e \<in> set ev. is_layer_event e"
            using offload_commit_events [of B l_no h'] oc by simp
          with True Some Inr r pr s t oc show ?thesis
            by (simp add: layer_step_def)
        qed
      qed
    qed
  qed
next
  case False
  obtain ev h'' where oc: "offload_commit B l_no
      ((cuda_graphs B ! l_no ! current_microbatch B) h (current_microbatch B = 0)) = (ev, h'')"
    by (cases "offload_commit B l_no
      ((cuda_graphs B ! l_no ! current_microbatch B) h (current_microbatch B = 0))")
  have "\<forall>e \<in> set ev. is_layer_event e"
    using offload_commit_events [of B l_no
        "(cuda_graphs B ! l_no ! current_microbatch B) h (current_microbatch B = 0)"] oc
    by simp
  with False oc show ?thesis
    by (simp add: layer_step_def)
qed

lemma forward_loop_events:
  "\<forall>e \<in> set (fst (forward_loop B kw caches l_no ps h)). is_layer_event e"
proof (induction ps arbitrary: l_no h)
  case Nil
  show ?case by simp
next
  case (Cons p ps)
  obtain ev r where st: "layer_step B kw caches l_no p h = (ev, r)"
    by (cases "layer_step B kw caches l_no p h")
  have ev: "\<forall>e \<in> set ev. is_layer_event e"
    using layer_step_events [of B kw caches l_no p h] st by simp
  show ?case
  proof (cases r)
    case (Inl e)
    with st ev show ?thesis by simp
  next
    case (Inr h1)
    obtain ev' r' where lp: "forward_loop B kw caches (Suc l_no) ps h1 = (ev', r')"
      by (cases "forward_loop B kw caches (Suc l_no) ps h1")
    have "\<forall>e \<in> set ev'. is_layer_event e"
      using Cons.IH [of "Suc l_no" h1] lp by simp
    with st ev Inr lp show ?thesis by auto
  qed
qed

text \<open>
  Whenever the FP8 context is made, the forward pass enters it first, every call of a
  layer comes before it is left, and only the final layer norm can follow.
\<close>

lemma block_forward_inside:
  assumes "make_fp8_context B = Inr cm"
  shows "\<exists>evs post r. block_forward B hs kw caches = (Enter cm # evs @ Exit cm # post, r)
           \<and> (\<forall>e \<in> set evs. is_layer_event e) \<and> (\<forall>e \<in> set post. \<not> is_layer_event e)"
proof (cases "recompute_granularity (config B) = Some ''full'' \<and> training B")
  case True
  then have "block_forward B hs kw caches = (Enter cm # [] @ Exit cm # [], Inl NotImplementedError)"
    using assms by (simp add: block_forward_def)
  then show ?thesis
    by (intro exI [of _ "[]"] exI [of _ "Inl NotImplementedError"]) simp
next
  case False
  let ?h = "if \<not> pre_process B then input_tensor B else hs"
  obtain ev r where lp: "forward_loop B kw caches 0 (zip (layers B) (xattn_and_dummy_layers B)) ?h
      = (ev, r)"
    by (cases "forward_loop B kw caches 0 (zip (layers B) (xattn_and_dummy_layers B)) ?h")
  have ev: "\<forall>e \<in> set ev. is_layer_event e"
    using forward_loop_events [of B kw caches 0 "zip (layers B) (xattn_and_dummy_layers B)" ?h] lp
    by simp
  show ?thesis
  proof (cases r)
    case (Inl e)
    with False assms lp
    have "block_forward B hs kw caches = (Enter cm # ev @ Exit cm # [], Inl e)"
      by (cases "training B") (simp_all add: block_forward_def Let_def)
    with ev show ?thesis
      by (intro exI [of _ ev] exI [of _ "[]"] exI [of _ "Inl e"]) simp
  next
    case (Inr h1)
    show ?thesis
    proof (cases "final_layernorm B")
      case None
      with False assms lp Inr
      have "block_forward B hs kw caches = (Enter cm # ev @ Exit cm # [], Inr h1)"
        by (cases "training B") (simp_all add: block_forward_def Let_def)
      with ev show ?thesis
        by (intro exI [of _ ev] exI [of _ "[]"] exI [of _ "Inr h1"]) simp
    next
      case (Some ln)
      with False assms lp Inr
      have "block_forward B hs kw caches
              = (Enter cm # ev @ Exit cm # [Run_final_layernorm], Inr (ln h1))"
        by (cases "training B") (simp_all add: block_forward_def Let_def)
      with ev show ?thesis
        by (intro exI [of _ ev] exI [of _ "[Run_final_layernorm]"] exI [of _ "Inr (ln h1)"]) simp
    qed
  qed
qed

lemma block_forward_bad_fp8:
  assumes "fp8 (config B) = Some s" and "s \<noteq> []" and "s \<noteq> ''e4m3''" and "s \<noteq> ''hybrid''"
  shows "block_forward B hs kw caches =
           ([], Inl (ValueError ''E4M3 and HYBRID are the only supported FP8 formats.''))"
proof -
  have "make_fp8_context B =
      Inl (ValueError ''E4M3 and HYBRID are the only supported FP8 formats.'')"
    using assms unfolding make_fp8_context_def by simp
  then show ?thesis
    unfolding block_forward_def Let_def by simp
qed

lemma example_block_all_fused:
  "example_block f [0, 1] =
     (example_base f [0, 1])\<lparr>
        xattn_layers := [xattn_layer_init example_layer (Suc 0),
                         xattn_layer_init example_layer (Suc (Suc 0))],
        xattn_and_dummy_layers :=
          [CrossAttentionTransformerLayer (xattn_layer_init example_layer (Suc 0)),
           CrossAttentionTransformerLayer (xattn_layer_init example_layer (Suc (Suc 0)))]\<rparr>"
  by (simp add: example_block_def block_init_def example_base_def make_slot_def Let_def upt_rec)

lemma example_block_second_fused:
  "example_block f [1] =
     (example_base f [1])\<lparr>
        xattn_layers := [xattn_layer_init example_layer (Suc (Suc 0))],
        xattn_and_dummy_layers :=
          [DummyCrossAttentionTransformerLayer,
           CrossAttentionTransformerLayer (xattn_layer_init example_layer (Suc (Suc 0)))]\<rparr>"
  by (simp add: example_block_def block_init_def example_base_def make_slot_def Let_def upt_rec)

text \<open>
  C4. If \<open>config.fp8\<close> is a true value other than \<open>"e4m3"\<close> and \<open>"hybrid"\<close>, the forward
  pass raises ValueError with the message \<open>E4M3 and HYBRID are the only supported FP8
  formats.\<close> and no event has happened: no context was entered and no layer was run. If
  it is \<open>"e4m3"\<close> or \<open>"hybrid"\<close>, the pass first enters an FP8 autocast context of that
  format, all layer calls happen before that context is left, and none after. If it is
  None, the same holds with the null context.
\<close>

theorem fp8_format_validation:
  "(fp8 (config B) = Some s \<and> s \<noteq> [] \<and> s \<noteq> ''e4m3'' \<and> s \<noteq> ''hybrid''
      \<longrightarrow> block_forward B hs kw caches =
            ([], Inl (ValueError ''E4M3 and HYBRID are the only supported FP8 formats.'')))
   \<and> (fp8 (config B) = Some ''e4m3''
      \<longrightarrow> (\<exists>w g evs post r.
             block_forward B hs kw caches =
               (Enter (fp8_autocast E4M3 w g) # evs @ Exit (fp8_autocast E4M3 w g) # post, r)
             \<and> (\<forall>e \<in> set evs. is_layer_event e) \<and> (\<forall>e \<in> set post. \<not> is_layer_event e)))
   \<and> (fp8 (config B) = Some ''hybrid''
      \<longrightarrow> (\<exists>w g evs post r.
             block_forward B hs kw caches =
               (Enter (fp8_autocast HYBRID w g) # evs @ Exit (fp8_autocast HYBRID w g) # post, r)
             \<and> (\<forall>e \<in> set evs. is_layer_event e) \<and> (\<forall>e \<in> set post. \<not> is_layer_event e)))
   \<and> (fp8 (config B) = None
      \<longrightarrow> (\<exists>evs post r.
             block_forward B hs kw caches = (Enter nullcontext # evs @ Exit nullcontext # post, r)
             \<and> (\<forall>e \<in> set evs. is_layer_event e) \<and> (\<forall>e \<in> set post. \<not> is_layer_event e)))"
proof (intro conjI impI)
  assume "fp8 (config B) = Some s \<and> s \<noteq> [] \<and> s \<noteq> ''e4m3'' \<and> s \<noteq> ''hybrid''"
  then show "block_forward B hs kw caches =
            ([], Inl (ValueError ''E4M3 and HYBRID are the only supported FP8 formats.''))"
    by (elim conjE) (rule block_forward_bad_fp8)
next
  assume "fp8 (config B) = Some ''e4m3''"
  then have "make_fp8_context B =
      Inr (fp8_autocast E4M3 (\<not> fp8_wgrad (config B)) (model_parallel_is_initialized B))"
    unfolding make_fp8_context_def by simp
  from block_forward_inside [OF this]
  show "\<exists>w g evs post r.
             block_forward B hs kw caches =
               (Enter (fp8_autocast E4M3 w g) # evs @ Exit (fp8_autocast E4M3 w g) # post, r)
             \<and> (\<forall>e \<in> set evs. is_layer_event e) \<and> (\<forall>e \<in> set post. \<not> is_layer_event e)"
    by (intro exI [of _ "\<not> fp8_wgrad (config B)"] exI [of _ "model_parallel_is_initialized B"])
next
  assume "fp8 (config B) = Some ''hybrid''"
  then have "make_fp8_context B =
      Inr (fp8_autocast HYBRID (\<not> fp8_wgrad (config B)) (model_parallel_is_initialized B))"
    unfolding make_fp8_context_def by simp
  from block_forward_inside [OF this]
  show "\<exists>w g evs post r.
             block_forward B hs kw caches =
               (Enter (fp8_autocast HYBRID w g) # evs @ Exit (fp8_autocast HYBRID w g) # post, r)
             \<and> (\<forall>e \<in> set evs. is_layer_event e) \<and> (\<forall>e \<in> set post. \<not> is_layer_event e)"
    by (intro exI [of _ "\<not> fp8_wgrad (config B)"] exI [of _ "model_parallel_is_initialized B"])
next
  assume "fp8 (config B) = None"
  then have "make_fp8_context B = Inr nullcontext"
    unfolding make_fp8_context_def by simp
  from block_forward_inside [OF this]
  show "\<exists>evs post r.
             block_forward B hs kw caches = (Enter nullcontext # evs @ Exit nullcontext # post, r)
             \<and> (\<forall>e \<in> set evs. is_layer_event e) \<and> (\<forall>e \<in> set post. \<not> is_layer_event e)" .
qed

theorem fp8_format_validation_witness:
  "fp8 (config (example_block (Some ''fp4'') [0, 1])) = Some ''fp4''
   \<and> ''fp4'' \<noteq> [] \<and> ''fp4'' \<noteq> ''e4m3'' \<and> ''fp4'' \<noteq> ''hybrid''
   \<and> block_forward (example_block (Some ''fp4'') [0, 1]) example_hidden3 example_kw (Some [7, 8]) =
        ([], Inl (ValueError ''E4M3 and HYBRID are the only supported FP8 formats.''))
   \<and> block_forward (example_block (Some ''e4m3'') [0, 1]) example_hidden3 example_kw (Some [7, 8]) =
        ([Enter (fp8_autocast E4M3 False True), Run_xattn 0 7, Run_text 0, Run_xattn 1 8,
          Run_text 1, Exit (fp8_autocast E4M3 False True)], Inr example_hidden3)
   \<and> block_forward (example_block None [0, 1]) example_hidden3 example_kw (Some [7, 8]) =
        ([Enter nullcontext, Run_xattn 0 7, Run_text 0, Run_xattn 1 8, Run_text 1,
          Exit nullcontext], Inr example_hidden3)"
proof -
  have a: "fp8 (config (example_block (Some ''fp4'') [0, 1])) = Some ''fp4''"
    unfolding example_block_all_fused by (simp add: example_base_def)
  have b: "''fp4'' \<noteq> []" "''fp4'' \<noteq> ''e4m3''" "''fp4'' \<noteq> ''hybrid''"
    by simp_all
  have c: "block_forward (example_block (Some ''fp4'') [0, 1]) example_hidden3 example_kw
        (Some [7, 8]) =
        ([], Inl (ValueError ''E4M3 and HYBRID are the only supported FP8 formats.''))"
    using fp8_format_validation [of "example_block (Some ''fp4'') [0, 1]" "''fp4''"
        example_hidden3 example_kw "Some [7, 8]"] a b
    by (elim conjE) (erule mp, intro conjI)
  have d: "block_forward (example_block (Some ''e4m3'') [0, 1]) example_hidden3 example_kw
        (Some [7, 8]) =
        ([Enter (fp8_autocast E4M3 False True), Run_xattn 0 7, Run_text 0, Run_xattn 1 8,
          Run_text 1, Exit (fp8_autocast E4M3 False True)], Inr example_hidden3)"
    unfolding example_block_all_fused
    by (simp add: block_forward_def example_base_def make_fp8_context_def layer_step_def
        py_index_def example_hidden3_def example_kw_def xattn_forward_def xattn_layer_init_def
        example_layer_def gate_tuple_def offload_commit_def Let_def)
  have e: "block_forward (example_block None [0, 1]) example_hidden3 example_kw (Some [7, 8]) =
        ([Enter nullcontext, Run_xattn 0 7, Run_text 0, Run_xattn 1 8, Run_text 1,
          Exit nullcontext], Inr example_hidden3)"
    unfolding example_block_all_fused
    by (simp add: block_forward_def example_base_def make_fp8_context_def layer_step_def
        py_index_def example_hidden3_def example_kw_def xattn_forward_def xattn_layer_init_def
        example_layer_def gate_tuple_def offload_commit_def Let_def)
  from a b c d e show ?thesis
    by (intro conjI)
qed

subsection \<open>The fusion schedule\<close>

text \<open>
  What \<open>__init__\<close> leaves: as many slots as text layers, a cross-attention layer at
  index \<open>i\<close> exactly if \<open>i\<close> is in the fusion schedule and a dummy otherwise; and a
  dummy returns the hidden states it is given, as a tensor.
\<close>

lemma block_init_slots:
  assumes "block_init B submodules = Inr B'"
  shows "length (xattn_and_dummy_layers B') = length (layers B')
     \<and> length (xattn_and_dummy_layers B') = num_layers_per_pipeline_rank B
     \<and> (\<forall>i < num_layers_per_pipeline_rank B.
          (int i \<in> set (fusion_schedule (config B))
             \<longrightarrow> xattn_and_dummy_layers B' ! i
                   = CrossAttentionTransformerLayer (xattn_layer_init submodules (i + 1)))
        \<and> (int i \<notin> set (fusion_schedule (config B))
             \<longrightarrow> xattn_and_dummy_layers B' ! i = DummyCrossAttentionTransformerLayer))"
proof -
  let ?slots = "map (make_slot (config B) submodules) [0 ..< num_layers_per_pipeline_rank B]"
  from assms have len: "length ?slots = length (layers B)"
    and B': "B' = B\<lparr>xattn_layers := map (\<lambda>i. xattn_layer_init submodules (i + 1))
                 (filter (\<lambda>i. int i \<in> set (fusion_schedule (config B)))
                    [0 ..< num_layers_per_pipeline_rank B]),
               xattn_and_dummy_layers := ?slots\<rparr>"
    by (auto simp: block_init_def Let_def split: if_splits)
  from len B' show ?thesis
    by (simp add: make_slot_def)
qed

lemma dummy_returns_hidden_states:
  "call_slot DummyCrossAttentionTransformerLayer hidden_states kw = Inr (PyTensor hidden_states)"
  by simp

text \<open>
  In general: a dummy's result on hidden states with other than two slices along the
  first axis cannot be unpacked, so the round of the loop ends with the exception after
  the call of the dummy, and a forward pass whose first slot is a dummy ends there.
\<close>

lemma dummy_result_unpack:
  assumes "length ts \<noteq> 2"
  shows "bind (call_slot DummyCrossAttentionTransformerLayer (Arr ts) kw) unpack2
           = Inl (unpack_error (length ts))"
proof (cases ts)
  case Nil
  then show ?thesis by simp
next
  case (Cons a as)
  note c1 = Cons
  show ?thesis
  proof (cases as)
    case Nil
    with c1 show ?thesis by simp
  next
    case (Cons b bs)
    with c1 assms obtain c cs where "bs = c # cs"
      by (cases bs) auto
    with c1 Cons show ?thesis by simp
  qed
qed

lemma dummy_layer_step:
  assumes "length (cuda_graphs B) = 0 \<or> \<not> training B"
    and "l_no < length caches" and "length ts \<noteq> 2"
  shows "layer_step B kw (Some caches) l_no (layer, DummyCrossAttentionTransformerLayer) (Arr ts)
           = ([Run_dummy l_no (caches ! l_no)], Inl (unpack_error (length ts)))"
proof -
  have "bind (call_slot DummyCrossAttentionTransformerLayer (Arr ts)
               (kw\<lparr>xattn_cache := caches ! l_no\<rparr>)) unpack2
          = Inl (unpack_error (length ts))"
    using assms(3) by (rule dummy_result_unpack)
  with assms(1,2) show ?thesis
    unfolding layer_step_def by (simp add: py_index_def)
qed


lemma dummy_first_slot_forward:
  assumes "length (cuda_graphs B) = 0 \<or> \<not> training B"
    and "fp8 (config B) = None"
    and "\<not> (recompute_granularity (config B) = Some ''full'' \<and> training B)"
    and "pre_process B"
    and "layers B = layer # ls"
    and "xattn_and_dummy_layers B = DummyCrossAttentionTransformerLayer # sl"
    and "caches \<noteq> []" and "length ts \<noteq> 2"
  shows "block_forward B (Arr ts) kw (Some caches)
           = ([Enter nullcontext, Run_dummy 0 (caches ! 0), Exit nullcontext],
              Inl (unpack_error (length ts)))"
proof -
  have ctx: "make_fp8_context B = Inr nullcontext"
    using assms(2) by (simp add: make_fp8_context_def)
  have step: "layer_step B kw (Some caches) 0 (layer, DummyCrossAttentionTransformerLayer) (Arr ts)
           = ([Run_dummy 0 (caches ! 0)], Inl (unpack_error (length ts)))"
    using assms(1,7,8) by (intro dummy_layer_step) simp_all
  from assms(3) have nr: "(recompute_granularity (config B) = Some ''full'' \<and> training B) = False"
    by simp
  show ?thesis
    unfolding block_forward_def Let_def ctx nr
    using assms(4,5,6) step by simp
qed
text \<open>
  C2 (the code departs from the claim). The example block has two text layers and the
  fusion schedule \<open>[1]\<close>, so slot 0 is a dummy. On hidden states of shape \<open>[3, 1, 2]\<close>
  the forward pass calls the dummy with \<open>xattn_caches[0]\<close> and then fails to unpack its
  result, a tensor with three slices, into \<open>hidden_states, context\<close>: ValueError, and
  no text layer has run. On hidden states of shape \<open>[2, 1, 2]\<close> the unpacking succeeds
  and the text layer gets the first slice only, so the pass returns a tensor of shape
  \<open>[1, 2]\<close>. With every index in the schedule the layers run in the claimed order.
\<close>

theorem dummy_slot_breaks_forward:
  "xattn_and_dummy_layers (example_block None [1]) ! 0 = DummyCrossAttentionTransformerLayer
   \<and> block_forward (example_block None [1]) example_hidden3 example_kw (Some [7, 8]) =
       ([Enter nullcontext, Run_dummy 0 7, Exit nullcontext],
        Inl (ValueError ''too many values to unpack (expected 2)''))
   \<and> block_forward (example_block None [1]) example_hidden2 example_kw (Some [7, 8]) =
       ([Enter nullcontext, Run_dummy 0 7, Run_text 0, Run_xattn 1 8, Run_text 1,
         Exit nullcontext], Inr (Arr [Arr [Num 1, Num 2]]))
   \<and> block_forward (example_block None [0, 1]) example_hidden3 example_kw (Some [7, 8]) =
       ([Enter nullcontext, Run_xattn 0 7, Run_text 0, Run_xattn 1 8, Run_text 1,
         Exit nullcontext], Inr example_hidden3)"
proof -
  have a: "xattn_and_dummy_layers (example_block None [1]) ! 0
      = DummyCrossAttentionTransformerLayer"
    unfolding example_block_second_fused by simp
  have b: "block_forward (example_block None [1]) example_hidden3 example_kw (Some [7, 8]) =
       ([Enter nullcontext, Run_dummy 0 7, Exit nullcontext],
        Inl (ValueError ''too many values to unpack (expected 2)''))"
    unfolding example_block_second_fused
    by (simp add: block_forward_def example_base_def make_fp8_context_def layer_step_def
        py_index_def example_hidden3_def unpack_error_def example_kw_def Let_def)
  have c: "block_forward (example_block None [1]) example_hidden2 example_kw (Some [7, 8]) =
       ([Enter nullcontext, Run_dummy 0 7, Run_text 0, Run_xattn 1 8, Run_text 1,
         Exit nullcontext], Inr (Arr [Arr [Num 1, Num 2]]))"
    unfolding example_block_second_fused
    by (simp add: block_forward_def example_base_def make_fp8_context_def layer_step_def
        py_index_def example_hidden2_def unpack_error_def example_kw_def xattn_forward_def
        xattn_layer_init_def example_layer_def gate_tuple_def offload_commit_def Let_def)
  have d: "block_forward (example_block None [0, 1]) example_hidden3 example_kw (Some [7, 8]) =
       ([Enter nullcontext, Run_xattn 0 7, Run_text 0, Run_xattn 1 8, Run_text 1,
         Exit nullcontext], Inr example_hidden3)"
    unfolding example_block_all_fused
    by (simp add: block_forward_def example_base_def make_fp8_context_def layer_step_def
        py_index_def example_hidden3_def example_kw_def xattn_forward_def xattn_layer_init_def
        example_layer_def gate_tuple_def offload_commit_def Let_def)
  from a b c d show ?thesis
    by (intro conjI)
qed

subsection \<open>The partially trainable embedding\<close>

lemma transpose01_nth:
  assumes "\<forall>row \<in> set t. length row = s" and "i < length t" and "j < s"
  shows "transpose01 t ! j ! i = t ! i ! j \<and> length (transpose01 t) = s
         \<and> length (transpose01 t ! j) = length t"
proof -
  from assms(2) obtain r rs where t: "t = r # rs"
    by (cases t) auto
  with assms(1) have len: "(case t of [] \<Rightarrow> 0 | r # _ \<Rightarrow> length r) = s"
    by simp
  show ?thesis
    using assms(2,3) by (simp add: transpose01_def len)
qed

lemma mul_mask_nth:
  assumes "j < length e" and "j < length m" and "i < length (e ! j)" and "i < length (m ! j)"
  shows "mul_mask e m ! j ! i = map (\<lambda>a. a * hd (m ! j ! i)) (e ! j ! i)
         \<and> j < length (mul_mask e m) \<and> i < length (mul_mask e m ! j)"
  using assms by (simp add: mul_mask_def)

lemma add3_nth:
  assumes "j < length a" and "j < length b" and "i < length (a ! j)" and "i < length (b ! j)"
  shows "add3 a b ! j ! i = map (\<lambda>(p, q). p + q) (zip (a ! j ! i) (b ! j ! i))"
  using assms by (simp add: add3_def)

lemma add_zero_row:
  assumes "length u = length v"
  shows "map (\<lambda>(p, q). p + q) (zip (map (\<lambda>a. a * 1) u) (map (\<lambda>a. a * 0) v)) = (u :: real list)"
    and "map (\<lambda>(p, q). p + q) (zip (map (\<lambda>a. a * 0) u) (map (\<lambda>a. a * 1) v)) = (v :: real list)"
  using assms by (induction u v rule: list_induct2) simp_all

lemma mask_where_nth:
  assumes "\<forall>row \<in> set x. length row = s" and "i < length x" and "j < s"
  shows "mask_where cond x ! j ! i = [if cond (x ! i ! j) then 0 else 1]
         \<and> length (mask_where cond x) = s \<and> length (mask_where cond x ! j) = length x"
proof -
  let ?t = "map (map (\<lambda>v. [if cond v then 0 else 1 :: real])) x"
  have r: "\<forall>row \<in> set ?t. length row = s"
    using assms(1) by simp
  have i: "i < length ?t"
    using assms(2) by simp
  from transpose01_nth [OF r i assms(3)] assms show ?thesis
    by (simp add: mask_where_def)
qed

lemma embedding_nth:
  assumes "\<forall>row \<in> set ids. length row = s" and "length position_ids = length ids"
    and "\<forall>prow \<in> set position_ids. length prow = s" and "i < length ids" and "j < s"
  shows "embedding M ids position_ids ! j ! i
           = word_embeddings M (ids ! i ! j) (position_ids ! i ! j)
         \<and> length (embedding M ids position_ids) = s
         \<and> length (embedding M ids position_ids ! j) = length ids"
proof -
  let ?t = "map (\<lambda>(row, prow). map (\<lambda>(t, p). word_embeddings M t p) (zip row prow))
              (zip ids position_ids)"
  have r: "\<forall>row \<in> set ?t. length row = s"
  proof clarsimp
    fix a b
    assume "(a, b) \<in> set (zip ids position_ids)"
    then have "a \<in> set ids" "b \<in> set position_ids"
      by (auto dest: set_zip_leftD set_zip_rightD)
    with assms(1,3) show "min (length a) (length b) = s"
      by simp
  qed
  have i: "i < length ?t"
    using assms(2,4) by simp
  have li: "length (ids ! i) = s" "length (position_ids ! i) = s"
    using assms by simp_all
  from transpose01_nth [OF r i assms(5)] assms(2,4,5) li show ?thesis
    by (simp add: embedding_def)
qed

lemma learnable_nth:
  assumes "\<forall>row \<in> set ids. length row = s" and "i < length ids" and "j < s"
  shows "transpose01 (learnable_embedding M ids) ! j ! i = learnable M (ids ! i ! j)
         \<and> length (transpose01 (learnable_embedding M ids)) = s
         \<and> length (transpose01 (learnable_embedding M ids) ! j) = length ids"
proof -
  have r: "\<forall>row \<in> set (learnable_embedding M ids). length row = s"
    using assms(1) by (simp add: learnable_embedding_def)
  have i: "i < length (learnable_embedding M ids)"
    using assms(2) by (simp add: learnable_embedding_def)
  from transpose01_nth [OF r i assms(3)] assms show ?thesis
    by (simp add: learnable_embedding_def)
qed

text \<open>
  C10. Let \<open>x\<close> and \<open>position_ids\<close> have shape \<open>[b, s]\<close> and let both embedding tables
  give rows of one length. At every position (\<open>i < b\<close>, \<open>j < s\<close>; the result has the
  layout \<open>[s, b, h]\<close>) exactly one of the two masks is 1. Where the id is below
  \<open>num_frozen_embeddings\<close>, \<open>mask_orig\<close> is 1 and the result is the frozen embedding of
  the id (at its position id); where the id is at least \<open>num_frozen_embeddings\<close>,
  \<open>mask_new\<close> is 1 and the result is the learnable embedding of the id minus
  \<open>num_frozen_embeddings\<close>.
\<close>

theorem partially_trainable_embedding:
  assumes rect: "\<forall>row \<in> set x. length row = s"
    and plen: "length position_ids = length x"
    and prect: "\<forall>prow \<in> set position_ids. length prow = s"
    and hw: "\<forall>t p. length (word_embeddings M t p) = h"
    and hl: "\<forall>k. length (learnable M k) = h"
    and i: "i < length x" and j: "j < s"
  shows "((mask_orig M x ! j ! i = [1]) \<noteq> (mask_new M x ! j ! i = [1]))
       \<and> (x ! i ! j < num_frozen_embeddings M \<longrightarrow>
            mask_orig M x ! j ! i = [1] \<and> mask_new M x ! j ! i = [0]
            \<and> get_partially_trainable_embedding M x position_ids ! j ! i
                = word_embeddings M (x ! i ! j) (position_ids ! i ! j))
       \<and> (x ! i ! j \<ge> num_frozen_embeddings M \<longrightarrow>
            mask_orig M x ! j ! i = [0] \<and> mask_new M x ! j ! i = [1]
            \<and> get_partially_trainable_embedding M x position_ids ! j ! i
                = learnable M (x ! i ! j - num_frozen_embeddings M))"
proof -
  let ?nf = "num_frozen_embeddings M"
  let ?xo = "map (map (\<lambda>v. min v (thresh M))) x"
  let ?xn = "map (map (\<lambda>v. max v (thresh M + 1) - ?nf)) x"
  let ?eo = "embedding M ?xo position_ids"
  let ?en = "transpose01 (learnable_embedding M ?xn)"
  have ro: "\<forall>row \<in> set ?xo. length row = s" and rn: "\<forall>row \<in> set ?xn. length row = s"
    using rect by simp_all
  have io: "i < length ?xo" and "i < length ?xn"
    using i by simp_all
  have lo: "length position_ids = length ?xo"
    using plen by simp
  have xi: "length (x ! i) = s"
    using rect i by simp
  have mo: "mask_orig M x ! j ! i = [if x ! i ! j \<ge> ?nf then 0 else 1]"
      "length (mask_orig M x) = s" "length (mask_orig M x ! j) = length x"
    using mask_where_nth [OF rect i j, of "\<lambda>v. v \<ge> ?nf"] by (simp_all add: mask_orig_def)
  have mn: "mask_new M x ! j ! i = [if x ! i ! j < ?nf then 0 else 1]"
      "length (mask_new M x) = s" "length (mask_new M x ! j) = length x"
    using mask_where_nth [OF rect i j, of "\<lambda>v. v < ?nf"] by (simp_all add: mask_new_def)
  have eo: "?eo ! j ! i = word_embeddings M (min (x ! i ! j) (thresh M)) (position_ids ! i ! j)"
      "length ?eo = s" "length (?eo ! j) = length x"
    using embedding_nth [OF ro lo prect io j, of M] i j xi by simp_all
  have en: "?en ! j ! i = learnable M (max (x ! i ! j) (thresh M + 1) - ?nf)"
      "length ?en = s" "length (?en ! j) = length x"
    using learnable_nth [OF rn \<open>i < length ?xn\<close> j, of M] i j xi by simp_all
  have a: "mul_mask ?eo (mask_orig M x) ! j ! i
             = map (\<lambda>a. a * hd (mask_orig M x ! j ! i)) (?eo ! j ! i)"
      "j < length (mul_mask ?eo (mask_orig M x))"
      "i < length (mul_mask ?eo (mask_orig M x) ! j)"
    using mul_mask_nth [of j ?eo "mask_orig M x" i] eo(2,3) mo(2,3) i j by simp_all
  have b: "mul_mask ?en (mask_new M x) ! j ! i
             = map (\<lambda>a. a * hd (mask_new M x ! j ! i)) (?en ! j ! i)"
      "j < length (mul_mask ?en (mask_new M x))"
      "i < length (mul_mask ?en (mask_new M x) ! j)"
    using mul_mask_nth [of j ?en "mask_new M x" i] en(2,3) mn(2,3) i j by simp_all
  have out: "get_partially_trainable_embedding M x position_ids ! j ! i
      = map (\<lambda>(p, q). p + q)
          (zip (map (\<lambda>a. a * hd (mask_orig M x ! j ! i)) (?eo ! j ! i))
               (map (\<lambda>a. a * hd (mask_new M x ! j ! i)) (?en ! j ! i)))"
    using add3_nth [OF a(2) b(2) a(3) b(3)] a(1) b(1)
    by (simp add: get_partially_trainable_embedding_def Let_def)
  have len: "length (?eo ! j ! i) = length (?en ! j ! i)"
    using hw hl eo(1) en(1) by simp
  have compl: "(mask_orig M x ! j ! i = [1]) \<noteq> (mask_new M x ! j ! i = [1])"
    using mo(1) mn(1) by simp
  show ?thesis
  proof (intro conjI impI compl)
    assume lt: "x ! i ! j < ?nf"
    then show "mask_orig M x ! j ! i = [1]" "mask_new M x ! j ! i = [0]"
      using mo(1) mn(1) by simp_all
    from lt have "min (x ! i ! j) (thresh M) = x ! i ! j"
      by (simp add: thresh_def)
    with lt out mo(1) mn(1) eo(1) add_zero_row(1) [OF len]
    show "get_partially_trainable_embedding M x position_ids ! j ! i
                = word_embeddings M (x ! i ! j) (position_ids ! i ! j)"
      by simp
  next
    assume ge: "x ! i ! j \<ge> ?nf"
    then show "mask_orig M x ! j ! i = [0]" "mask_new M x ! j ! i = [1]"
      using mo(1) mn(1) by simp_all
    from ge have "max (x ! i ! j) (thresh M + 1) = x ! i ! j"
      by (simp add: thresh_def)
    with ge out mo(1) mn(1) en(1) add_zero_row(2) [OF len]
    show "get_partially_trainable_embedding M x position_ids ! j ! i
                = learnable M (x ! i ! j - ?nf)"
      by simp
  qed
qed

theorem partially_trainable_embedding_witness:
  "get_partially_trainable_embedding example_model [[0, 4, 2], [3, 1, 5]] [[0, 1, 2], [0, 1, 2]]
       ! 0 ! 1 = [100, 0]
   \<and> mask_orig example_model [[0, 4, 2], [3, 1, 5]] ! 0 ! 1 = [0]
   \<and> mask_new example_model [[0, 4, 2], [3, 1, 5]] ! 0 ! 1 = [1]
   \<and> get_partially_trainable_embedding example_model [[0, 4, 2], [3, 1, 5]] [[0, 1, 2], [0, 1, 2]]
       ! 2 ! 0 = [2, 2]"
proof -
  let ?x = "[[0, 4, 2], [3, 1, 5 :: int]]"
  let ?p = "[[0, 1, 2], [0, 1, 2 :: int]]"
  have rect: "\<forall>row \<in> set ?x. length row = 3" and prect: "\<forall>prow \<in> set ?p. length prow = 3"
    by simp_all
  have plen: "length ?p = length ?x"
    by simp
  have hw: "\<forall>t p. length (word_embeddings example_model t p) = 2"
    and hl: "\<forall>k. length (learnable example_model k) = 2"
    by (simp_all add: example_model_def)
  have nf: "num_frozen_embeddings example_model = 3"
    by (simp add: example_model_def)
  have i1: "(1::nat) < length ?x" and i0: "(0::nat) < length ?x"
    and j0: "(0::nat) < 3" and j2: "(2::nat) < 3"
    by simp_all
  have ge: "?x ! 1 ! 0 \<ge> num_frozen_embeddings example_model"
    and lt: "?x ! 0 ! 2 < num_frozen_embeddings example_model"
    by (simp_all add: nf)
  from partially_trainable_embedding [OF rect plen prect hw hl i1 j0] ge
  have a: "mask_orig example_model ?x ! 0 ! 1 = [0]" "mask_new example_model ?x ! 0 ! 1 = [1]"
      "get_partially_trainable_embedding example_model ?x ?p ! 0 ! 1
         = learnable example_model (?x ! 1 ! 0 - num_frozen_embeddings example_model)"
    by blast+
  from partially_trainable_embedding [OF rect plen prect hw hl i0 j2] lt
  have b: "get_partially_trainable_embedding example_model ?x ?p ! 2 ! 0
         = word_embeddings example_model (?x ! 0 ! 2) (?p ! 0 ! 2)"
    by blast
  from a b show ?thesis
    by (simp add: example_model_def)
qed

subsection \<open>Rotary embedding frequency rescaling\<close>

lemma wavelen_bounds_ordered:
  assumes "0 < low_freq_factor" and "low_freq_factor \<le> high_freq_factor"
    and "0 \<le> old_context_len"
  shows "old_context_len / high_freq_factor \<le> old_context_len / (low_freq_factor :: real)"
  using assms by (intro divide_left_mono) simp_all

text \<open>
  C3. Let the frequency factors be ordered as their names say, \<open>0 < low_freq_factor \<le>
  high_freq_factor\<close>, and let \<open>old_context_len\<close> not be negative. For every positive
  entry \<open>f\<close> of \<open>inv_freq\<close>, with wavelength \<open>w = 2 * pi / f\<close>, the function returns,
  and the entry of the result is \<open>f\<close> when \<open>w < old_context_len / high_freq_factor\<close>;
  it is \<open>f / factor\<close> when \<open>w > old_context_len / low_freq_factor\<close>; and otherwise it is
  \<open>(1 - s) * (f / factor) + s * f\<close> with \<open>s = (old_context_len / w - low_freq_factor) /
  (high_freq_factor - low_freq_factor)\<close>.
\<close>

theorem rope_scaling:
  assumes "0 < low_freq_factor" and "low_freq_factor \<le> high_freq_factor"
    and "0 \<le> old_context_len"
    and "k < length inv_freq" and "0 < inv_freq ! k"
    and "f = inv_freq ! k" and "w = 2 * pi / f"
    and "s = (old_context_len / w - low_freq_factor) / (high_freq_factor - low_freq_factor)"
  shows "\<exists>out. apply_rope_scaling inv_freq factor low_freq_factor high_freq_factor old_context_len
            = Inr out
          \<and> length out = length inv_freq
          \<and> (w < old_context_len / high_freq_factor \<longrightarrow> out ! k = f)
          \<and> (w > old_context_len / low_freq_factor \<longrightarrow> out ! k = f / factor)
          \<and> (\<not> w < old_context_len / high_freq_factor \<and> \<not> w > old_context_len / low_freq_factor
               \<longrightarrow> out ! k = (1 - s) * (f / factor) + s * f)"
proof -
  let ?out = "map (rope_entry factor low_freq_factor high_freq_factor old_context_len) inv_freq"
  have nz: "low_freq_factor \<noteq> 0" "high_freq_factor \<noteq> 0"
    using assms(1,2) by simp_all
  have r: "apply_rope_scaling inv_freq factor low_freq_factor high_freq_factor old_context_len
      = Inr ?out"
    using nz by (simp add: apply_rope_scaling_def)
  have k: "?out ! k = rope_entry factor low_freq_factor high_freq_factor old_context_len f"
    using assms(4,6) by simp
  have ord: "old_context_len / high_freq_factor \<le> old_context_len / low_freq_factor"
    using assms(1,2,3) by (rule wavelen_bounds_ordered)
  have a: "w < old_context_len / high_freq_factor \<longrightarrow> ?out ! k = f"
  proof
    assume h: "w < old_context_len / high_freq_factor"
    with ord have "\<not> w > old_context_len / low_freq_factor"
      by simp
    with h show "?out ! k = f"
      unfolding k using assms(7) by (simp add: rope_entry_def Let_def)
  qed
  have b: "w > old_context_len / low_freq_factor \<longrightarrow> ?out ! k = f / factor"
  proof
    assume l: "w > old_context_len / low_freq_factor"
    with ord have "\<not> w < old_context_len / high_freq_factor"
      by simp
    with l show "?out ! k = f / factor"
      unfolding k using assms(7) by (simp add: rope_entry_def Let_def)
  qed
  have c: "\<not> w < old_context_len / high_freq_factor \<and> \<not> w > old_context_len / low_freq_factor
               \<longrightarrow> ?out ! k = (1 - s) * (f / factor) + s * f"
    unfolding k using assms(7,8) by (simp add: rope_entry_def Let_def)
  from r a b c show ?thesis
    by (intro exI [of _ ?out]) simp
qed

theorem rope_scaling_witness:
  "apply_rope_scaling [pi / 100, pi / 2000, pi / 8192] 8 1 4 8192
     = Inr [pi / 100, 323 * pi / 1500000, pi / 65536]
   \<and> 2 * pi / (pi / 100) < 8192 / (4::real)
   \<and> \<not> 2 * pi / (pi / 2000) < 8192 / (4::real) \<and> \<not> 2 * pi / (pi / 2000) > 8192 / (1::real)
   \<and> 2 * pi / (pi / 8192) > 8192 / (1::real)"
proof -
  let ?fs = "[pi / 100, pi / 2000, pi / 8192]"
  obtain out where out: "apply_rope_scaling ?fs 8 1 4 8192 = Inr out"
      "length out = length ?fs" "out ! 0 = pi / 100"
    using rope_scaling [of 1 4 8192 0 ?fs "pi / 100" "2 * pi / (pi / 100)"
        "(8192 / (2 * pi / (pi / 100)) - 1) / (4 - 1)" 8]
    by auto
  have "apply_rope_scaling ?fs 8 1 4 8192 = Inr [pi / 100, 323 * pi / 1500000, pi / 65536]"
    by (simp add: apply_rope_scaling_def rope_entry_def Let_def)
  with out show ?thesis
    by simp
qed

text \<open>
  Outside that ordering the function behaves otherwise: with the factors reversed,
  \<open>low_freq_factor = 4\<close> and \<open>high_freq_factor = 1\<close>, an entry of wavelength 4000 is
  divided by \<open>factor\<close>, since line 959 tests \<open>wavelen > low_freq_wavelen\<close> first; and
  with \<open>low_freq_factor = 0\<close> the function raises ZeroDivisionError.
\<close>

lemma rope_scaling_reversed_factors:
  "apply_rope_scaling [pi / 2000] 8 4 1 8192 = Inr [pi / 16000]
   \<and> apply_rope_scaling [pi / 2000] 8 0 4 8192 = Inl ZeroDivisionError"
  by (simp add: apply_rope_scaling_def rope_entry_def Let_def)

end
